theory Spec2Isabelle
  imports Complex_Main "HOL-Library.Char_ord" "HOL-Library.List_Lexorder" "HOL-Library.Multiset"
begin

section \<open>Sales dashboard (assignment\_portofolio.py): data model\<close>

text \<open>
  The script loads a table of sale records and a fitted regression model, filters the
  table by date range, region and category, renders aggregates of the filtered table, and
  builds a one-row feature frame for the model. A data frame is modelled as the list of its
  rows in row order. Text columns are \<open>string\<close>s, compared lexicographically by character
  code as Python compares \<open>str\<close>. A cell of a text column that the script groups or filters
  on may be missing (NaN): it is \<open>None\<close>. A float64 cell is the real number it denotes. The
  library's float64 summations round, in an order the library chooses, so they are
  parameters of the model: \<open>series_sum\<close> for \<open>Series.sum()\<close> and \<open>group_sum\<close> for the sum of
  one group of a \<open>groupby\<close>; nothing is assumed of them.
\<close>

subsection \<open>Exceptions\<close>

datatype py_error =
    IndexError string
  | ValueError string
  | ZeroDivisionError string
  | DateParseError string
  | EstimatorError string
  | DisplayError string

text \<open>\<open>str(e)\<close>: the message an exception carries.\<close>

fun str_exc :: "py_error \<Rightarrow> string" where
  "str_exc (IndexError m) = m"
| "str_exc (ValueError m) = m"
| "str_exc (ZeroDivisionError m) = m"
| "str_exc (DateParseError m) = m"
| "str_exc (EstimatorError m) = m"
| "str_exc (DisplayError m) = m"

text \<open>\<open>xs[i]\<close> for a non-negative index: out of range raises IndexError.\<close>

definition py_index :: "'a list \<Rightarrow> nat \<Rightarrow> py_error + 'a" where
  "py_index xs i = (if i < length xs then Inr (xs ! i) else Inl (IndexError ''index out of range''))"

subsection \<open>Calendar dates and timestamps\<close>

text \<open>
  A \<open>datetime.date\<close> as the date widgets return it. \<open>toordinal\<close> is the proleptic
  Gregorian day number (day 1 is 0001-01-01), computed as the standard library does:
  days before the year, days before the month, day of the month.
\<close>

record date =
  year :: int
  month :: int
  day :: int

definition is_leap :: "int \<Rightarrow> bool" where
  "is_leap y = (y mod 4 = 0 \<and> (y mod 100 \<noteq> 0 \<or> y mod 400 = 0))"

definition days_before_year :: "int \<Rightarrow> int" where
  "days_before_year y = (y - 1) * 365 + (y - 1) div 4 - (y - 1) div 100 + (y - 1) div 400"

definition DAYS_BEFORE_MONTH :: "int list" where
  "DAYS_BEFORE_MONTH = [-1, 0, 31, 59, 90, 120, 151, 181, 212, 243, 273, 304, 334]"

definition days_before_month :: "int \<Rightarrow> int \<Rightarrow> int" where
  "days_before_month y m =
     DAYS_BEFORE_MONTH ! nat m + (if m > 2 \<and> is_leap y then 1 else 0)"

definition toordinal :: "date \<Rightarrow> int" where
  "toordinal d = days_before_year (year d) + days_before_month (year d) (month d) + day d"

text \<open>
  The order-date column is converted with \<open>pd.to_datetime\<close> (line 24), so its cells are
  timestamps: nanoseconds since 1970-01-01T00:00, date and time of day together.
  \<open>pd.to_datetime\<close> of a \<open>datetime.date\<close> is midnight at the start of that day.
\<close>

type_synonym timestamp = int

definition NS_PER_DAY :: int where
  "NS_PER_DAY = 86400000000000"

definition EPOCH_ORDINAL :: int where
  "EPOCH_ORDINAL = 719163"

definition to_datetime :: "date \<Rightarrow> timestamp" where
  "to_datetime d = (toordinal d - EPOCH_ORDINAL) * NS_PER_DAY"

text \<open>A timestamp on the calendar day \<open>d\<close>, \<open>h\<close> hours after midnight.\<close>

definition at_hour :: "date \<Rightarrow> int \<Rightarrow> timestamp" where
  "at_hour d h = to_datetime d + h * 3600000000000"

text \<open>The calendar day (as an ordinal) a timestamp falls on: \<open>Timestamp.date()\<close>.\<close>

definition ordinal_of_timestamp :: "timestamp \<Rightarrow> int" where
  "ordinal_of_timestamp t = t div NS_PER_DAY + EPOCH_ORDINAL"

subsection \<open>Sale records\<close>

record sale =
  OrderID :: string
  Tanggal_Pesanan :: timestamp
  Wilayah :: "string option"
  Kategori :: "string option"
  Produk :: "string option"
  Jumlah :: int
  Harga_Satuan :: real
  Diskon :: real
  Metode_Pembayaran :: "string option"
  Total_Penjualan :: real
  Bulan :: "string option"

type_synonym dataframe = "sale list"

text \<open>
  \<open>Series.unique().tolist()\<close>: the distinct values in order of first appearance, a missing
  value among them if there is one.
\<close>

fun unique :: "'a list \<Rightarrow> 'a list" where
  "unique [] = []"
| "unique (x # xs) = x # unique (filter (\<lambda>y. y \<noteq> x) xs)"

text \<open>\<open>Series.nunique()\<close>: the number of distinct values.\<close>

definition nunique :: "'a list \<Rightarrow> nat" where
  "nunique xs = length (unique xs)"

section \<open>The filter (lines 52--92)\<close>

text \<open>
  Lines 66--73. \<open>date_range\<close> is the tuple the date widget returns. With exactly two
  endpoints the rows are kept whose timestamp lies between the two endpoints converted by
  \<open>pd.to_datetime\<close>, both comparisons inclusive; otherwise the table is taken whole.
\<close>

definition date_filter :: "dataframe \<Rightarrow> date list \<Rightarrow> py_error + dataframe" where
  "date_filter df date_range =
     (if length date_range = 2 then
        (case py_index date_range 0 of
           Inl e \<Rightarrow> Inl e
         | Inr d0 \<Rightarrow>
            (case py_index date_range 1 of
               Inl e \<Rightarrow> Inl e
             | Inr d1 \<Rightarrow>
                 (let start_date_filter = to_datetime d0;
                      end_date_filter = to_datetime d1
                  in Inr (filter (\<lambda>r. Tanggal_Pesanan r \<ge> start_date_filter
                                      \<and> Tanggal_Pesanan r \<le> end_date_filter) df))))
      else Inr df)"

text \<open>
  \<open>df[df[col].isin(selected)]\<close>. The options of a multiselect are the \<open>unique()\<close> values of
  the column, so a selection may hold the missing value; \<open>isin\<close> then keeps the rows whose
  cell is missing.
\<close>

definition isin_filter :: "(sale \<Rightarrow> string option) \<Rightarrow> string option list \<Rightarrow> dataframe
    \<Rightarrow> dataframe" where
  "isin_filter col selected df = filter (\<lambda>r. col r \<in> set selected) df"

text \<open>Lines 66--90: the date step, then the region step, then the category step.\<close>

definition filtered_df :: "dataframe \<Rightarrow> date list \<Rightarrow> string option list
    \<Rightarrow> string option list \<Rightarrow> py_error + dataframe" where
  "filtered_df df_sales date_range selected_regions selected_categories =
     (case date_filter df_sales date_range of
        Inl e \<Rightarrow> Inl e
      | Inr df1 \<Rightarrow>
          Inr (isin_filter Kategori selected_categories
                 (isin_filter Wilayah selected_regions df1)))"

section \<open>The prediction request (lines 299--331)\<close>

datatype cell = IntCell int | FloatCell real

text \<open>A data frame of one row: the column labels and the row's cells.\<close>

record feature_frame =
  columns :: "string list"
  row :: "cell list"

text \<open>
  Lines 324--331: \<open>pd.DataFrame([[...six values...]], columns=model_features)\<close>. The six
  values are written in a fixed order; the labels are laid over them by position. The
  constructor raises ValueError unless there are as many labels as values.
\<close>

definition input_for_prediction :: "string list \<Rightarrow> int \<Rightarrow> real \<Rightarrow> real \<Rightarrow> real \<Rightarrow> int \<Rightarrow> int
    \<Rightarrow> py_error + feature_frame" where
  "input_for_prediction model_features target_date_ordinal avg_quantity avg_unit_price
       avg_discount day_of_week_encoded hour_of_day =
     (let data = [IntCell target_date_ordinal, FloatCell avg_quantity, FloatCell avg_unit_price,
                  FloatCell avg_discount, IntCell day_of_week_encoded, IntCell hour_of_day]
      in if length model_features = length data
         then Inr \<lparr>columns = model_features, row = data\<rparr>
         else Inl (ValueError ''columns passed do not match the data''))"

text \<open>\<open>frame[name]\<close> on the single row: the cell under the first column so labelled.\<close>

definition cell_of :: "feature_frame \<Rightarrow> string \<Rightarrow> cell option" where
  "cell_of fr name = map_of (zip (columns fr) (row fr)) name"

section \<open>Aggregations of the filtered table (lines 109--256)\<close>

text \<open>Lines 109--112: the four summary metrics.\<close>

definition total_sales :: "(real list \<Rightarrow> real) \<Rightarrow> dataframe \<Rightarrow> real" where
  "total_sales series_sum df = series_sum (map Total_Penjualan df)"

definition total_orders :: "dataframe \<Rightarrow> nat" where
  "total_orders df = nunique (map OrderID df)"

text \<open>Division faults on a zero divisor; the model makes the fault an error value.\<close>

definition py_truediv :: "real \<Rightarrow> nat \<Rightarrow> py_error + real" where
  "py_truediv a b = (if b = 0 then Inl (ZeroDivisionError ''division by zero'') else Inr (a / real b))"

definition avg_order_value :: "(real list \<Rightarrow> real) \<Rightarrow> dataframe \<Rightarrow> py_error + real" where
  "avg_order_value series_sum df =
     (if total_orders df > 0 then py_truediv (total_sales series_sum df) (total_orders df)
      else Inr 0)"

definition total_products_sold :: "dataframe \<Rightarrow> int" where
  "total_products_sold df = sum_list (map Jumlah df)"

text \<open>The values of a column that are present, in row order.\<close>

fun dropna :: "'a option list \<Rightarrow> 'a list" where
  "dropna [] = []"
| "dropna (None # xs) = dropna xs"
| "dropna (Some x # xs) = x # dropna xs"

text \<open>
  \<open>df.groupby(col)['Total_Penjualan'].sum().reset_index()\<close>: one row per distinct key that
  is present, the keys in ascending order (\<open>groupby\<close> sorts its keys and drops the rows whose
  key is missing), each with the library's sum of the total amounts of the rows carrying
  that key, taken in row order.
\<close>

definition groupby_sum :: "(real list \<Rightarrow> real) \<Rightarrow> (sale \<Rightarrow> string option) \<Rightarrow> dataframe
    \<Rightarrow> (string \<times> real) list" where
  "groupby_sum group_sum col df =
     map (\<lambda>k. (k, group_sum (map Total_Penjualan (filter (\<lambda>r. col r = Some k) df))))
       (sort (unique (dropna (map col df))))"

text \<open>
  \<open>Series.nlargest(n)\<close> with the default \<open>keep='first'\<close>: the \<open>n\<close> largest values in
  descending order, equal values in their order of appearance in the series.
\<close>

definition nlargest :: "nat \<Rightarrow> (string \<times> real) list \<Rightarrow> (string \<times> real) list" where
  "nlargest n tbl = take n (sort_key (\<lambda>kv. - snd kv) tbl)"

text \<open>Line 161.\<close>

definition top_products_sales :: "(real list \<Rightarrow> real) \<Rightarrow> dataframe \<Rightarrow> (string \<times> real) list" where
  "top_products_sales group_sum df = nlargest 10 (groupby_sum group_sum Produk df)"

text \<open>Lines 186, 215--219, 239--243.\<close>

definition sales_by_category :: "(real list \<Rightarrow> real) \<Rightarrow> dataframe \<Rightarrow> (string \<times> real) list" where
  "sales_by_category group_sum df = groupby_sum group_sum Kategori df"

definition sales_by_payment :: "(real list \<Rightarrow> real) \<Rightarrow> dataframe \<Rightarrow> (string \<times> real) list" where
  "sales_by_payment group_sum df = groupby_sum group_sum Metode_Pembayaran df"

definition sales_by_region :: "(real list \<Rightarrow> real) \<Rightarrow> dataframe \<Rightarrow> (string \<times> real) list" where
  "sales_by_region group_sum df = groupby_sum group_sum Wilayah df"

text \<open>
  The float64 sums of a table incur no rounding: the column sum and the sum of every group
  of the column \<open>col\<close> are the exact sums. This holds, for instance, of amounts that are
  whole numbers of moderate size.
\<close>

definition sums_exact :: "(real list \<Rightarrow> real) \<Rightarrow> (real list \<Rightarrow> real) \<Rightarrow> (sale \<Rightarrow> string option)
    \<Rightarrow> dataframe \<Rightarrow> bool" where
  "sums_exact series_sum group_sum col df =
     (series_sum (map Total_Penjualan df) = sum_list (map Total_Penjualan df)
      \<and> list_all
          (\<lambda>k. group_sum (map Total_Penjualan (filter (\<lambda>r. col r = Some k) df))
                 = sum_list (map Total_Penjualan (filter (\<lambda>r. col r = Some k) df)))
          (unique (dropna (map col df))))"

subsection \<open>Monthly totals (lines 127--131)\<close>

text \<open>
  A monthly period (\<open>Period[M]\<close>): a year and a month, ordered by the number of months
  since January 1970, rendered by \<open>astype(str)\<close> as \<open>YYYY-MM\<close>.
\<close>

record period =
  p_year :: int
  p_month :: int

definition period_ordinal :: "period \<Rightarrow> int" where
  "period_ordinal p = (p_year p - 1970) * 12 + (p_month p - 1)"

definition digit_char :: "nat \<Rightarrow> char" where
  "digit_char n = ''0123456789'' ! n"

fun dec_str :: "nat \<Rightarrow> string" where
  "dec_str n = (if n < 10 then [digit_char n] else dec_str (n div 10) @ [digit_char (n mod 10)])"

declare dec_str.simps [simp del]

definition zfill :: "nat \<Rightarrow> string \<Rightarrow> string" where
  "zfill w s = replicate (w - length s) (CHR ''0'') @ s"

definition period_str :: "period \<Rightarrow> string" where
  "period_str p = zfill 4 (dec_str (nat (p_year p))) @ ''-'' @ zfill 2 (dec_str (nat (p_month p)))"

text \<open>
  \<open>pd.to_datetime(labels).dt.to_period('M')\<close> is the library's parser; it is a parameter
  \<open>to_period\<close> of the model, which gives the month of a label or raises. The conversion
  of the label column stops at the first label that does not parse.
\<close>

fun parse_labels :: "(string \<Rightarrow> py_error + period) \<Rightarrow> (string \<times> real) list
    \<Rightarrow> py_error + (period \<times> real) list" where
  "parse_labels to_period [] = Inr []"
| "parse_labels to_period ((label, v) # rest) =
     (case to_period label of
        Inl e \<Rightarrow> Inl e
      | Inr p \<Rightarrow>
          (case parse_labels to_period rest of
             Inl e \<Rightarrow> Inl e
           | Inr ps \<Rightarrow> Inr ((p, v) # ps)))"

text \<open>
  Lines 127--131: group by the month label, convert the labels to periods, sort the rows
  by period, render the periods as strings.
\<close>

definition sales_by_month :: "(string \<Rightarrow> py_error + period) \<Rightarrow> (real list \<Rightarrow> real) \<Rightarrow> dataframe
    \<Rightarrow> py_error + (string \<times> real) list" where
  "sales_by_month to_period group_sum df =
     (case parse_labels to_period (groupby_sum group_sum Bulan df) of
        Inl e \<Rightarrow> Inl e
      | Inr rows \<Rightarrow>
          Inr (map (\<lambda>pv. (period_str (fst pv), snd pv))
                 (sort_key (\<lambda>pv. period_ordinal (fst pv)) rows)))"

section \<open>The script as a run over widget inputs\<close>

text \<open>
  One run of the script: the widget values are its inputs, the calls that render something
  (and the call of the estimator) are its effects, in order. A run ends by reaching the
  last line, by \<open>st.stop()\<close>, or by an exception that nothing catches. The texts of
  headings are abbreviated; a number shown in a formatted string is kept as the number.
\<close>

datatype page = Overview_Dashboard | Prediksi_Penjualan

datatype hari = Senin | Selasa | Rabu | Kamis | Jumat | Sabtu | Minggu

text \<open>Line 314.\<close>

fun day_of_week_map :: "hari \<Rightarrow> int" where
  "day_of_week_map Senin = 0"
| "day_of_week_map Selasa = 1"
| "day_of_week_map Rabu = 2"
| "day_of_week_map Kamis = 3"
| "day_of_week_map Jumat = 4"
| "day_of_week_map Sabtu = 5"
| "day_of_week_map Minggu = 6"

record widgets =
  pilihan_halaman :: page
  date_range :: "date list"
  selected_regions :: "string option list"
  selected_categories :: "string option list"
  num_rows_to_display :: nat
  target_date :: date
  avg_quantity :: real
  avg_unit_price :: real
  avg_discount :: real
  day_of_week :: hari
  hour_of_day :: int
  button :: bool

datatype effect =
    Title
  | Markdown
  | Header string
  | Subheader string
  | Write string
  | Warning string
  | Error_box string
  | Success real
  | Info
  | Metric string real
  | Line_chart "(string \<times> real) list"
  | Bar_chart "(string \<times> real) list"
  | Pie_chart "(string \<times> real) list"
  | Show_rows dataframe
  | Describe dataframe
  | Predict feature_frame
  | Write_frame feature_frame
  | Caption

datatype outcome = Completed | Stopped | Raised py_error

type_synonym run = "effect list \<times> outcome"

definition say :: "effect list \<Rightarrow> run" where
  "say es = (es, Completed)"

definition raise :: "py_error \<Rightarrow> run" where
  "raise e = ([], Raised e)"

text \<open>Sequencing: what follows runs only if what came before reached its end.\<close>

definition and_then :: "run \<Rightarrow> run \<Rightarrow> run" where
  "and_then r1 r2 =
     (case snd r1 of
        Completed \<Rightarrow> (fst r1 @ fst r2, snd r2)
      | Stopped \<Rightarrow> r1
      | Raised e \<Rightarrow> r1)"

text \<open>Lines 103--285: the Overview page, given the filtered table.\<close>

definition overview_page :: "(string \<Rightarrow> py_error + period) \<Rightarrow> (real list \<Rightarrow> real)
    \<Rightarrow> (real list \<Rightarrow> real) \<Rightarrow> dataframe \<Rightarrow> nat \<Rightarrow> run" where
  "overview_page to_period series_sum group_sum df n =
     and_then (say [Subheader ''Ringkasan Performa Penjualan''])
       (case avg_order_value series_sum df of
          Inl e \<Rightarrow> raise e
        | Inr aov \<Rightarrow>
            and_then
              (say [Metric ''Total Penjualan'' (total_sales series_sum df),
                    Metric ''Jumlah Pesanan'' (real (total_orders df)),
                    Metric ''Rata-rata Nilai Pesanan'' aov,
                    Metric ''Jumlah Produk Terjual'' (real_of_int (total_products_sold df)),
                    Markdown,
                    Subheader ''Tren Penjualan Bulanan''])
              (case sales_by_month to_period group_sum df of
                 Inl e \<Rightarrow> raise e
               | Inr monthly \<Rightarrow>
                   say [Line_chart monthly,
                        Markdown,
                        Subheader ''Top Produk & Distribusi Penjualan'',
                        Write ''Top 10 Produk Terlaris'',
                        Bar_chart (top_products_sales group_sum df),
                        Write ''Distribusi Penjualan per Kategori'',
                        Pie_chart (sales_by_category group_sum df),
                        Markdown,
                        Subheader ''Performa Penjualan Lebih Detail'',
                        Write ''Penjualan Berdasarkan Metode Pembayaran'',
                        Bar_chart (sales_by_payment group_sum df),
                        Write ''Penjualan Berdasarkan Wilayah'',
                        Bar_chart (sales_by_region group_sum df),
                        Markdown,
                        Subheader ''Eksplorasi Data Mentah'',
                        Write ''Berikut adalah sebagian kecil dari data transaksi'',
                        Show_rows (take n df),
                        Write ''Statistik Deskriptif:'',
                        Describe df]))"

text \<open>
  Line 334: \<open>sales_prediction_model.predict(input_for_prediction)[0]\<close>. The estimator is a
  parameter \<open>predict\<close>: it returns the array of predictions or raises.
\<close>

definition predicted_sales_value :: "(feature_frame \<Rightarrow> py_error + real list) \<Rightarrow> feature_frame
    \<Rightarrow> py_error + real" where
  "predicted_sales_value predict frame =
     (case predict frame of
        Inl e \<Rightarrow> Inl e
      | Inr ys \<Rightarrow> py_index ys 0)"

text \<open>
  Lines 288--349: the Prediction page. The frame is built before the \<open>try\<close> (lines
  324--331), so an exception of the constructor is not caught; the \<open>try\<close> (lines
  333--349) covers the call of the estimator and the display of its result. Of the display
  calls inside the \<open>try\<close>, the one that is given data to serialise is \<open>st.write\<close> of the
  frame (line 346); it is a parameter \<open>st_write\<close> of the model, which raises (\<open>Some\<close> of
  the exception) or renders the frame. What was shown before it raises stays shown, and
  the handler then shows its error box.
\<close>

definition prediction_page :: "(feature_frame \<Rightarrow> py_error + real list)
    \<Rightarrow> (feature_frame \<Rightarrow> py_error option) \<Rightarrow> string list \<Rightarrow> widgets \<Rightarrow> run" where
  "prediction_page predict st_write model_features w =
     and_then
       (say [Header ''Prediksi Penjualan Sederhana'',
             Write ''Gunakan bagian ini untuk memprediksi potensi total penjualan'',
             Subheader ''Input Parameter Prediksi'',
             Markdown])
       (if button w then
          (case input_for_prediction model_features (toordinal (target_date w))
                  (avg_quantity w) (avg_unit_price w) (avg_discount w)
                  (day_of_week_map (day_of_week w)) (hour_of_day w) of
             Inl e \<Rightarrow> raise e
           | Inr frame \<Rightarrow>
               (case predicted_sales_value predict frame of
                  Inr v \<Rightarrow>
                    (case st_write frame of
                       None \<Rightarrow>
                         say [Predict frame,
                              Success v,
                              Info,
                              Markdown,
                              Subheader ''Fitur yang Digunakan untuk Prediksi:'',
                              Write_frame frame]
                     | Some e \<Rightarrow>
                         say [Predict frame,
                              Success v,
                              Info,
                              Markdown,
                              Subheader ''Fitur yang Digunakan untuk Prediksi:'',
                              Error_box (''Terjadi kesalahan saat melakukan prediksi: '' @ str_exc e
                                         @ ''. Pastikan semua input valid.'')])
                | Inl e \<Rightarrow>
                    say [Predict frame,
                         Error_box (''Terjadi kesalahan saat melakukan prediksi: '' @ str_exc e
                                    @ ''. Pastikan semua input valid.'')]))
        else say [])"

text \<open>
  The whole script. Lines 52--92 choose the table (filtered on the Overview page, whole on
  the Prediction page); lines 96--98 warn and stop on an empty table on the Overview page;
  lines 103--349 render the chosen page; lines 352--353 close the page.
\<close>

definition script :: "(string \<Rightarrow> py_error + period) \<Rightarrow> (feature_frame \<Rightarrow> py_error + real list)
    \<Rightarrow> (feature_frame \<Rightarrow> py_error option) \<Rightarrow> (real list \<Rightarrow> real) \<Rightarrow> (real list \<Rightarrow> real)
    \<Rightarrow> dataframe \<Rightarrow> string list \<Rightarrow> widgets \<Rightarrow> run" where
  "script to_period predict st_write series_sum group_sum df_sales model_features w =
     and_then (say [Title, Markdown, Markdown])
       (case (if pilihan_halaman w = Overview_Dashboard
              then filtered_df df_sales (date_range w) (selected_regions w) (selected_categories w)
              else Inr df_sales) of
          Inl e \<Rightarrow> raise e
        | Inr fdf \<Rightarrow>
            and_then
              (if pilihan_halaman w = Overview_Dashboard \<and> fdf = []
               then ([Warning ''Tidak ada data yang tersedia berdasarkan filter yang Anda pilih. Silakan sesuaikan filter.''],
                     Stopped)
               else say [])
              (and_then
                 (if pilihan_halaman w = Overview_Dashboard
                  then overview_page to_period series_sum group_sum fdf (num_rows_to_display w)
                  else prediction_page predict st_write model_features w)
                 (say [Markdown, Caption])))"

text \<open>The effects that show an aggregate or a chart of the filtered table.\<close>

fun is_aggregate :: "effect \<Rightarrow> bool" where
  "is_aggregate (Metric l v) = True"
| "is_aggregate (Line_chart t) = True"
| "is_aggregate (Bar_chart t) = True"
| "is_aggregate (Pie_chart t) = True"
| "is_aggregate (Show_rows d) = True"
| "is_aggregate (Describe d) = True"
| "is_aggregate e = False"

fun is_predict :: "effect \<Rightarrow> bool" where
  "is_predict (Predict f) = True"
| "is_predict e = False"

fun is_error_box :: "effect \<Rightarrow> bool" where
  "is_error_box (Error_box m) = True"
| "is_error_box e = False"

section \<open>Float64 accumulation in row order\<close>

text \<open>
  One summation that the parameters \<open>series_sum\<close> and \<open>group_sum\<close> can stand for: binary64
  addition, rounded to nearest with ties to even, accumulated from 0 in row order. This is
  what the library computes for a column or a group of a few records. A binary64 number has
  a significand of 53 bits, so a positive number in the binade from \<open>2 ^ k\<close> to
  \<open>2 ^ (k + 1)\<close> is a multiple of \<open>2 ^ (k - 52)\<close>, its unit in the last place; the unit is
  never less than \<open>2 ^ -1074\<close>. Overflow to infinity is outside this model.
\<close>

definition round_half_even :: "real \<Rightarrow> int" where
  "round_half_even x =
     (if x - of_int \<lfloor>x\<rfloor> < 1 / 2 then \<lfloor>x\<rfloor>
      else if x - of_int \<lfloor>x\<rfloor> > 1 / 2 then \<lfloor>x\<rfloor> + 1
      else if even \<lfloor>x\<rfloor> then \<lfloor>x\<rfloor> else \<lfloor>x\<rfloor> + 1)"

text \<open>
  The search for the unit in the last place of a positive \<open>x\<close>, from a candidate \<open>u\<close>:
  halve it while \<open>x\<close> is below the binade of \<open>u\<close>, double it while \<open>x\<close> is above. The
  first argument bounds the number of steps; binary64 has fewer than 2100 binades.
\<close>

fun ulp_search :: "nat \<Rightarrow> real \<Rightarrow> real \<Rightarrow> real" where
  "ulp_search 0 u x = u"
| "ulp_search (Suc n) u x =
     (if x < u * 2 ^ 52 \<and> u > 1 / 2 ^ 1074 then ulp_search n (u / 2) x
      else if u * 2 ^ 53 \<le> x then ulp_search n (u * 2) x
      else u)"

definition ulp_of :: "real \<Rightarrow> real" where
  "ulp_of x = ulp_search 2100 (1 / 2 ^ 52) \<bar>x\<bar>"

definition float64_round :: "real \<Rightarrow> real" where
  "float64_round x =
     (if x = 0 then 0
      else sgn x * (of_int (round_half_even (\<bar>x\<bar> / ulp_of x)) * ulp_of x))"

definition float64_sum :: "real list \<Rightarrow> real" where
  "float64_sum xs = foldl (\<lambda>acc x. float64_round (acc + x)) 0 xs"

section \<open>Sample inputs\<close>

text \<open>
  Concrete tables, widget values and stand-ins for the library parameters: a parser that
  knows three month labels, an estimator that always raises, a frame display that refuses
  duplicate column names. Both summations are the float64 accumulation in row order. Where
  the amounts of a sample table are small whole numbers, their float64 sums are exact
  whatever the order of summation.
\<close>

definition example_date :: date where
  "example_date = \<lparr>year = 2024, month = 6, day = 10\<rparr>"

definition previous_date :: date where
  "previous_date = \<lparr>year = 2024, month = 6, day = 9\<rparr>"

definition next_date :: date where
  "next_date = \<lparr>year = 2024, month = 6, day = 11\<rparr>"

definition sale_row :: "string \<Rightarrow> timestamp \<Rightarrow> string \<Rightarrow> string \<Rightarrow> real \<Rightarrow> sale" where
  "sale_row oid ts prd bulan tot =
     \<lparr>OrderID = oid, Tanggal_Pesanan = ts, Wilayah = Some ''Jakarta'',
      Kategori = Some ''Elektronik'', Produk = Some prd, Jumlah = 1, Harga_Satuan = tot,
      Diskon = 0, Metode_Pembayaran = Some ''Transfer'', Total_Penjualan = tot,
      Bulan = Some bulan\<rparr>"

definition month_label_parser :: "string \<Rightarrow> py_error + period" where
  "month_label_parser label =
     (case map_of [(''Dec 2023'', \<lparr>p_year = 2023, p_month = 12\<rparr>),
                   (''Jan 2024'', \<lparr>p_year = 2024, p_month = 1\<rparr>),
                   (''Feb 2024'', \<lparr>p_year = 2024, p_month = 2\<rparr>)] label of
        None \<Rightarrow> Inl (DateParseError label)
      | Some p \<Rightarrow> Inr p)"

definition three_months :: dataframe where
  "three_months =
     [sale_row ''O1'' 0 ''B'' ''Feb 2024'' 5,
      sale_row ''O2'' 0 ''A'' ''Jan 2024'' 5,
      sale_row ''O3'' 0 ''B'' ''Dec 2023'' 1,
      sale_row ''O3'' 0 ''C'' ''Jan 2024'' 7]"

text \<open>Eleven products, the first two rows out of alphabetical order, the last total negative.\<close>

definition eleven_products :: dataframe where
  "eleven_products =
     [sale_row ''O1'' 0 ''B'' ''Jan 2024'' 1, sale_row ''O2'' 0 ''A'' ''Jan 2024'' 1,
      sale_row ''O3'' 0 ''C'' ''Jan 2024'' 1, sale_row ''O4'' 0 ''D'' ''Jan 2024'' 1,
      sale_row ''O5'' 0 ''E'' ''Jan 2024'' 1, sale_row ''O6'' 0 ''F'' ''Jan 2024'' 1,
      sale_row ''O7'' 0 ''G'' ''Jan 2024'' 1, sale_row ''O8'' 0 ''H'' ''Jan 2024'' 1,
      sale_row ''O9'' 0 ''I'' ''Jan 2024'' 1, sale_row ''O10'' 0 ''J'' ''Jan 2024'' 1,
      sale_row ''O11'' 0 ''K'' ''Jan 2024'' (-5)]"

text \<open>
  Twelve products in reverse alphabetical order of first appearance, eight of them with the
  same total, and one row without a product.
\<close>

definition twelve_products :: dataframe where
  "twelve_products =
     [sale_row ''O1'' 0 ''L'' ''Jan 2024'' 4, sale_row ''O2'' 0 ''K'' ''Jan 2024'' 1,
      sale_row ''O3'' 0 ''J'' ''Jan 2024'' 1, sale_row ''O4'' 0 ''I'' ''Jan 2024'' 1,
      sale_row ''O5'' 0 ''H'' ''Jan 2024'' 1, sale_row ''O6'' 0 ''G'' ''Jan 2024'' 1,
      sale_row ''O7'' 0 ''F'' ''Jan 2024'' 1, sale_row ''O8'' 0 ''E'' ''Jan 2024'' 7,
      sale_row ''O9'' 0 ''D'' ''Jan 2024'' 1, sale_row ''O10'' 0 ''C'' ''Jan 2024'' 1,
      sale_row ''O11'' 0 ''B'' ''Jan 2024'' 3, sale_row ''O12'' 0 ''A'' ''Jan 2024'' 2,
      sale_row ''O13'' 0 ''B'' ''Jan 2024'' 2,
      (sale_row ''O14'' 0 ''X'' ''Jan 2024'' 3)\<lparr>Produk := None\<rparr>]"

text \<open>
  Three orders in two regions and two categories: at 10:00 on 2024-06-09, at 14:00 on
  2024-06-10 and at midnight on 2024-06-11.
\<close>

definition order_before :: sale where
  "order_before = sale_row ''O1'' (at_hour previous_date 10) ''Laptop'' ''Jun 2024'' 5"

definition order_bandung :: sale where
  "order_bandung =
     (sale_row ''O2'' (at_hour example_date 14) ''Kemeja'' ''Jun 2024'' 2)
       \<lparr>Wilayah := Some ''Bandung'', Kategori := Some ''Fashion''\<rparr>"

definition order_jakarta :: sale where
  "order_jakarta =
     (sale_row ''O3'' (at_hour next_date 0) ''Sepatu'' ''Jun 2024'' 3)
       \<lparr>Kategori := Some ''Fashion''\<rparr>"

definition two_regions :: dataframe where
  "two_regions = [order_before, order_bandung, order_jakarta]"

text \<open>
  Three records in two categories whose amounts are the binary64 numbers nearest to 0.1,
  0.2 and 0.3, and three records of three products whose amounts are the binary64 numbers
  nearest to 0.1, 0.1 and 1.1.
\<close>

definition three_tenths :: dataframe where
  "three_tenths =
     [(sale_row ''O1'' 0 ''P'' ''Jan 2024'' (float64_round (1 / 10)))\<lparr>Kategori := Some ''B''\<rparr>,
      (sale_row ''O2'' 0 ''Q'' ''Jan 2024'' (float64_round (1 / 5)))\<lparr>Kategori := Some ''A''\<rparr>,
      (sale_row ''O3'' 0 ''R'' ''Jan 2024'' (float64_round (3 / 10)))\<lparr>Kategori := Some ''A''\<rparr>]"

definition small_amounts :: dataframe where
  "small_amounts =
     [sale_row ''O1'' 0 ''P'' ''Jan 2024'' (float64_round (1 / 10)),
      sale_row ''O2'' 0 ''Q'' ''Jan 2024'' (float64_round (1 / 10)),
      sale_row ''O3'' 0 ''R'' ''Jan 2024'' (float64_round (11 / 10))]"

definition example_widgets :: widgets where
  "example_widgets =
     \<lparr>pilihan_halaman = Prediksi_Penjualan,
      date_range = [example_date, example_date],
      selected_regions = [Some ''Jakarta''],
      selected_categories = [Some ''Elektronik''],
      num_rows_to_display = 50,
      target_date = example_date,
      avg_quantity = 2,
      avg_unit_price = 100,
      avg_discount = 1 / 10,
      day_of_week = Senin,
      hour_of_day = 14,
      button = True\<rparr>"

definition failing_estimator :: "feature_frame \<Rightarrow> py_error + real list" where
  "failing_estimator frame = Inl (EstimatorError ''X has 6 features, but the estimator expects 7'')"

definition constant_estimator :: "feature_frame \<Rightarrow> py_error + real list" where
  "constant_estimator frame = Inr [250]"

definition st_write_distinct :: "feature_frame \<Rightarrow> py_error option" where
  "st_write_distinct frame =
     (if distinct (columns frame) then None
      else Some (DisplayError ''Duplicate column names found''))"

section \<open>Lemmas about the model\<close>

lemma set_unique: "set (unique xs) = set xs"
  by (induction xs rule: unique.induct) auto

lemma distinct_unique: "distinct (unique xs)"
  by (induction xs rule: unique.induct) (auto simp: set_unique)

lemma set_dropna: "set (dropna xs) = {x. Some x \<in> set xs}"
  by (induction xs rule: dropna.induct) auto

lemma toordinal_example: "toordinal example_date = 739047"
  by (simp add: example_date_def toordinal_def days_before_year_def days_before_month_def
      DAYS_BEFORE_MONTH_def is_leap_def)

lemma toordinal_previous: "toordinal previous_date = 739046"
  by (simp add: previous_date_def toordinal_def days_before_year_def days_before_month_def
      DAYS_BEFORE_MONTH_def is_leap_def)

lemma toordinal_next: "toordinal next_date = 739048"
  by (simp add: next_date_def toordinal_def days_before_year_def days_before_month_def
      DAYS_BEFORE_MONTH_def is_leap_def)

lemma date_filter_pair:
  "date_filter df [a, b] =
     Inr (filter (\<lambda>r. to_datetime a \<le> Tanggal_Pesanan r \<and> Tanggal_Pesanan r \<le> to_datetime b) df)"
  by (simp add: date_filter_def py_index_def)

lemma date_filter_other: "length dr \<noteq> 2 \<Longrightarrow> date_filter df dr = Inr df"
  by (simp add: date_filter_def)

lemma length_two: "length xs = 2 \<Longrightarrow> \<exists>a b. xs = [a, b]"
  by (cases xs; cases "tl xs") auto

lemma date_filter_total: "\<exists>rows. date_filter df dr = Inr rows \<and> set rows \<subseteq> set df"
proof (cases "length dr = 2")
  case True
  then obtain a b where "dr = [a, b]"
    using length_two by blast
  then show ?thesis by (auto simp: date_filter_pair)
next
  case False
  then show ?thesis by (simp add: date_filter_other)
qed

lemma isin_filter_id: "col ` set df \<subseteq> set sel \<Longrightarrow> isin_filter col sel df = df"
  unfolding isin_filter_def by (rule filter_True) auto

lemma sum_list_delta:
  fixes v :: "'b::comm_monoid_add"
  assumes "distinct ks" "k0 \<in> set ks"
  shows "(\<Sum>k\<leftarrow>ks. if k0 = k then v else 0) = v"
proof -
  have "(\<Sum>k\<leftarrow>ks. if k0 = k then v else 0) = (\<Sum>k\<in>set ks. if k0 = k then v else 0)"
    using assms(1) by (rule sum_list_distinct_conv_sum_set)
  also have "\<dots> = v" using assms(2) by simp
  finally show ?thesis .
qed

text \<open>
  Grouping by key partitions the rows that have a key, for sums in any commutative monoid:
  the reals under addition, or multisets of rows under union.
\<close>

lemma sum_groups:
  fixes val :: "'r \<Rightarrow> 'b::comm_monoid_add"
  assumes "distinct ks" "{k. Some k \<in> col ` set df} \<subseteq> set ks"
  shows "(\<Sum>k\<leftarrow>ks. sum_list (map val (filter (\<lambda>r. col r = Some k) df)))
           = sum_list (map val (filter (\<lambda>r. col r \<noteq> None) df))"
  using assms(2)
proof (induction df)
  case Nil
  then show ?case by simp
next
  case (Cons r df)
  have sub: "{k. Some k \<in> col ` set df} \<subseteq> set ks" using Cons.prems by auto
  note ih = Cons.IH[OF sub]
  show ?case
  proof (cases "col r")
    case None
    then show ?thesis using ih by simp
  next
    case (Some k0)
    have in_ks: "k0 \<in> set ks" using Cons.prems Some by force
    have "(\<Sum>k\<leftarrow>ks. sum_list (map val (filter (\<lambda>x. col x = Some k) (r # df))))
        = (\<Sum>k\<leftarrow>ks. (if k0 = k then val r else 0)
                     + sum_list (map val (filter (\<lambda>x. col x = Some k) df)))"
      by (rule arg_cong[where f = sum_list]) (rule map_cong, simp_all add: Some)
    also have "\<dots> = (\<Sum>k\<leftarrow>ks. if k0 = k then val r else 0)
                   + (\<Sum>k\<leftarrow>ks. sum_list (map val (filter (\<lambda>x. col x = Some k) df)))"
      by (rule sum_list_addf)
    also have "\<dots> = val r + sum_list (map val (filter (\<lambda>r. col r \<noteq> None) df))"
      by (simp add: sum_list_delta[OF assms(1) in_ks] ih)
    finally show ?thesis by (simp add: Some)
  qed
qed

lemma sum_list_singletons: "(\<Sum>x\<leftarrow>xs. {#x#}) = mset xs"
  by (induction xs) auto

lemma mset_concat_sum: "mset (concat xss) = (\<Sum>xs\<leftarrow>xss. mset xs)"
  by (induction xss) auto

lemma groupby_sum_keys:
  "map fst (groupby_sum group_sum col df) = sort (unique (dropna (map col df)))"
  by (simp add: groupby_sum_def comp_def)

lemma groupby_sum_values:
  "map snd (groupby_sum group_sum col df)
     = map (\<lambda>k. group_sum (map Total_Penjualan (filter (\<lambda>r. col r = Some k) df)))
         (map fst (groupby_sum group_sum col df))"
  by (simp add: groupby_sum_def comp_def)

lemma groupby_sum_keys_set:
  "set (map fst (groupby_sum group_sum col df)) = set (dropna (map col df))"
  by (simp add: groupby_sum_keys set_unique)

lemma groupby_sum_keys_cover:
  "{k. Some k \<in> col ` set df} \<subseteq> set (map fst (groupby_sum group_sum col df))"
  unfolding groupby_sum_keys_set by (auto simp: set_dropna)

lemma groupby_sum_keys_distinct: "distinct (map fst (groupby_sum group_sum col df))"
  by (simp add: groupby_sum_keys distinct_unique)

lemma groupby_sum_partition:
  "mset (concat (map (\<lambda>k. filter (\<lambda>r. col r = Some k) df)
                   (map fst (groupby_sum group_sum col df))))
     = mset (filter (\<lambda>r. col r \<noteq> None) df)"
proof -
  let ?ks = "map fst (groupby_sum group_sum col df)"
  have "mset (concat (map (\<lambda>k. filter (\<lambda>r. col r = Some k) df) ?ks))
      = (\<Sum>k\<leftarrow>?ks. mset (filter (\<lambda>r. col r = Some k) df))"
    by (simp add: mset_concat_sum comp_def)
  also have "\<dots> = (\<Sum>k\<leftarrow>?ks. sum_list (map (\<lambda>r. {#r#}) (filter (\<lambda>r. col r = Some k) df)))"
    by (simp add: sum_list_singletons)
  also have "\<dots> = sum_list (map (\<lambda>r. {#r#}) (filter (\<lambda>r. col r \<noteq> None) df))"
    using groupby_sum_keys_distinct groupby_sum_keys_cover by (rule sum_groups)
  finally show ?thesis by (simp add: sum_list_singletons)
qed

lemma groupby_sum_row:
  "kv \<in> set (groupby_sum group_sum col df) \<Longrightarrow>
     Some (fst kv) \<in> col ` set df
     \<and> snd kv = group_sum (map Total_Penjualan (filter (\<lambda>r. col r = Some (fst kv)) df))"
  by (auto simp: groupby_sum_def set_unique set_dropna)

lemma groupby_sum_exact_total:
  "sum_list (map snd (groupby_sum sum_list col df))
     = sum_list (map Total_Penjualan (filter (\<lambda>r. col r \<noteq> None) df))"
proof -
  let ?ks = "map fst (groupby_sum sum_list col df)"
  have "sum_list (map snd (groupby_sum sum_list col df))
      = (\<Sum>k\<leftarrow>?ks. sum_list (map Total_Penjualan (filter (\<lambda>r. col r = Some k) df)))"
    by (simp add: groupby_sum_def comp_def)
  also have "\<dots> = sum_list (map Total_Penjualan (filter (\<lambda>r. col r \<noteq> None) df))"
    using groupby_sum_keys_distinct groupby_sum_keys_cover by (rule sum_groups)
  finally show ?thesis .
qed

lemma groupby_sum_exact:
  assumes "sums_exact series_sum group_sum col df"
  shows "groupby_sum group_sum col df = groupby_sum sum_list col df"
proof -
  have "\<forall>k\<in>set (sort (unique (dropna (map col df)))).
          group_sum (map Total_Penjualan (filter (\<lambda>r. col r = Some k) df))
            = sum_list (map Total_Penjualan (filter (\<lambda>r. col r = Some k) df))"
    using assms by (simp add: sums_exact_def list_all_iff)
  then show ?thesis by (simp add: groupby_sum_def)
qed

lemma total_sales_exact:
  assumes "sums_exact series_sum group_sum col df"
  shows "total_sales series_sum df = sum_list (map Total_Penjualan df)"
  using assms by (simp add: sums_exact_def total_sales_def)

lemma filter_all_present: "None \<notin> set (map col df) \<Longrightarrow> filter (\<lambda>r. col r \<noteq> None) df = df"
  by (rule filter_True) force

lemma groupby_sum_total:
  assumes "sums_exact series_sum group_sum col df" "None \<notin> set (map col df)"
  shows "sum_list (map snd (groupby_sum group_sum col df)) = total_sales series_sum df"
  using groupby_sum_exact[OF assms(1)] total_sales_exact[OF assms(1)]
    groupby_sum_exact_total[of col df] filter_all_present[OF assms(2)]
  by simp

lemma sum_list_filter_le:
  fixes f :: "'a \<Rightarrow> real"
  assumes "\<forall>x\<in>set xs. 0 \<le> f x"
  shows "sum_list (map f (filter P xs)) \<le> sum_list (map f xs)"
  using assms by (induction xs) (auto intro: add_increasing)

lemma filter_take_prefix:
  "filter P (take n xs) = take (length (filter P (take n xs))) (filter P xs)"
proof -
  have "filter P xs = filter P (take n xs) @ filter P (drop n xs)"
    by (metis append_take_drop_id filter_append)
  then show ?thesis by simp
qed

lemma nlargest_length: "length (nlargest n tbl) = min n (length tbl)"
  by (simp add: nlargest_def min.commute)

lemma nlargest_subset: "set (nlargest n tbl) \<subseteq> set tbl"
  unfolding nlargest_def using set_take_subset[of n "sort_key (\<lambda>kv. - snd kv) tbl"] by simp

lemma sort_desc_sorted:
  "sorted_wrt (\<lambda>a b. snd a \<ge> snd b) (sort_key (\<lambda>kv. - snd kv) (tbl :: (string \<times> real) list))"
proof -
  have "sorted (map (\<lambda>kv. - snd kv) (sort_key (\<lambda>kv. - snd kv) tbl))" by (rule sorted_sort_key)
  then show ?thesis by (simp add: sorted_wrt_map)
qed

lemma nlargest_sorted: "sorted_wrt (\<lambda>a b. snd a \<ge> snd b) (nlargest n tbl)"
  unfolding nlargest_def using sort_desc_sorted by (rule sorted_wrt_take)

lemma nlargest_rest:
  "\<exists>rest. mset (nlargest n tbl @ rest) = mset tbl
         \<and> (\<forall>a\<in>set (nlargest n tbl). \<forall>b\<in>set rest. snd b \<le> snd a)"
proof -
  let ?s = "sort_key (\<lambda>kv. - snd kv) tbl"
  have "sorted_wrt (\<lambda>a b. snd a \<ge> snd b) (take n ?s @ drop n ?s)"
    using sort_desc_sorted[of tbl] by simp
  then have cross: "\<forall>a\<in>set (take n ?s). \<forall>b\<in>set (drop n ?s). snd b \<le> snd a"
    unfolding sorted_wrt_append by blast
  have "mset (take n ?s @ drop n ?s) = mset tbl" by simp
  then show ?thesis unfolding nlargest_def using cross by blast
qed

lemma nlargest_stable:
  "filter (\<lambda>kv. snd kv = v) (nlargest n tbl)
     = take (length (filter (\<lambda>kv. snd kv = v) (nlargest n tbl))) (filter (\<lambda>kv. snd kv = v) tbl)"
proof -
  have eq: "(\<lambda>kv::string \<times> real. snd kv = v) = (\<lambda>kv. - snd kv = - v)" by auto
  have st: "filter (\<lambda>kv. snd kv = v) (sort_key (\<lambda>kv. - snd kv) tbl) = filter (\<lambda>kv. snd kv = v) tbl"
    unfolding eq by (rule sort_key_stable)
  show ?thesis
    unfolding nlargest_def
    using filter_take_prefix[of "\<lambda>kv. snd kv = v" n "sort_key (\<lambda>kv. - snd kv) tbl"] st by simp
qed

lemma sum_list_take_le:
  fixes xs :: "real list"
  assumes "\<forall>x\<in>set xs. 0 \<le> x"
  shows "sum_list (take n xs) \<le> sum_list xs"
proof -
  have "sum_list xs = sum_list (take n xs) + sum_list (drop n xs)"
    by (metis append_take_drop_id sum_list_append)
  moreover have "0 \<le> sum_list (drop n xs)"
    using assms by (intro sum_list_nonneg) (auto dest: in_set_dropD)
  ultimately show ?thesis by simp
qed

lemma sum_list_sort_key:
  fixes g :: "'a \<Rightarrow> real"
  shows "sum_list (map g (sort_key f xs)) = sum_list (map g xs)"
proof -
  have "mset (map g (sort_key f xs)) = mset (map g xs)" by simp
  then show ?thesis by (metis sum_mset_sum_list)
qed

lemma nlargest_sum_le:
  assumes "\<forall>kv\<in>set tbl. 0 \<le> snd kv"
  shows "sum_list (map snd (nlargest n tbl)) \<le> sum_list (map snd tbl)"
proof -
  let ?s = "sort_key (\<lambda>kv. - snd kv) tbl"
  have "sum_list (map snd (take n ?s)) = sum_list (take n (map snd ?s))" by (simp add: take_map)
  also have "\<dots> \<le> sum_list (map snd ?s)"
    using assms by (intro sum_list_take_le) auto
  also have "\<dots> = sum_list (map snd tbl)" by (rule sum_list_sort_key)
  finally show ?thesis by (simp add: nlargest_def)
qed

lemma top_products_sum_le:
  assumes ex: "sums_exact series_sum group_sum Produk df"
    and nn: "\<forall>r\<in>set df. 0 \<le> Total_Penjualan r"
  shows "sum_list (map snd (top_products_sales group_sum df)) \<le> total_sales series_sum df"
proof -
  let ?tbl = "groupby_sum sum_list Produk df"
  have tbl: "groupby_sum group_sum Produk df = ?tbl" using ex by (rule groupby_sum_exact)
  have "\<forall>kv\<in>set ?tbl. 0 \<le> snd kv"
  proof
    fix kv assume "kv \<in> set ?tbl"
    then have "snd kv = sum_list (map Total_Penjualan (filter (\<lambda>r. Produk r = Some (fst kv)) df))"
      using groupby_sum_row by blast
    moreover have "0 \<le> sum_list (map Total_Penjualan (filter (\<lambda>r. Produk r = Some (fst kv)) df))"
      using nn by (intro sum_list_nonneg) auto
    ultimately show "0 \<le> snd kv" by simp
  qed
  then have "sum_list (map snd (nlargest 10 ?tbl)) \<le> sum_list (map snd ?tbl)"
    by (rule nlargest_sum_le)
  also have "\<dots> = sum_list (map Total_Penjualan (filter (\<lambda>r. Produk r \<noteq> None) df))"
    by (rule groupby_sum_exact_total)
  also have "\<dots> \<le> sum_list (map Total_Penjualan df)"
    using nn by (rule sum_list_filter_le)
  also have "\<dots> = total_sales series_sum df"
    using total_sales_exact[OF ex] by simp
  finally show ?thesis by (simp add: top_products_sales_def tbl)
qed

lemma parse_labels_ok:
  assumes "\<forall>kv\<in>set tbl. \<exists>p. to_period (fst kv) = Inr p"
  shows "\<exists>parsed. parse_labels to_period tbl = Inr parsed
           \<and> list_all2 (\<lambda>pv kv. to_period (fst kv) = Inr (fst pv) \<and> snd pv = snd kv) parsed tbl"
  using assms
proof (induction tbl)
  case Nil
  then show ?case by simp
next
  case (Cons kv tbl)
  obtain label v where kv: "kv = (label, v)" by (cases kv)
  obtain p where p: "to_period label = Inr p" using Cons.prems kv by auto
  obtain parsed where ih: "parse_labels to_period tbl = Inr parsed"
      "list_all2 (\<lambda>pv kv. to_period (fst kv) = Inr (fst pv) \<and> snd pv = snd kv) parsed tbl"
    using Cons.IH Cons.prems by auto
  have "parse_labels to_period (kv # tbl) = Inr ((p, v) # parsed)"
    by (simp add: kv p ih(1))
  moreover have "list_all2 (\<lambda>pv kv. to_period (fst kv) = Inr (fst pv) \<and> snd pv = snd kv)
                   ((p, v) # parsed) (kv # tbl)"
    using ih(2) by (simp add: kv p)
  ultimately show ?case by blast
qed

lemma list_all2_snd:
  "list_all2 (\<lambda>pv kv. Q pv kv \<and> snd pv = snd kv) xs ys \<Longrightarrow> map snd xs = map snd ys"
  by (induction xs ys rule: list_all2_induct) auto

lemma sales_by_month_parsed:
  assumes "\<forall>l\<in>set (dropna (map Bulan df)). \<exists>p. to_period l = Inr p"
  shows "\<exists>parsed.
           list_all2 (\<lambda>pv kv. to_period (fst kv) = Inr (fst pv) \<and> snd pv = snd kv)
             parsed (groupby_sum group_sum Bulan df)
         \<and> sales_by_month to_period group_sum df =
             Inr (map (\<lambda>pv. (period_str (fst pv), snd pv))
                    (sort_key (\<lambda>pv. period_ordinal (fst pv)) parsed))"
proof -
  have "\<forall>kv\<in>set (groupby_sum group_sum Bulan df). \<exists>p. to_period (fst kv) = Inr p"
  proof
    fix kv assume "kv \<in> set (groupby_sum group_sum Bulan df)"
    then have "fst kv \<in> set (map fst (groupby_sum group_sum Bulan df))" by simp
    then have "fst kv \<in> set (dropna (map Bulan df))" unfolding groupby_sum_keys_set .
    then show "\<exists>p. to_period (fst kv) = Inr p" using assms by blast
  qed
  then obtain parsed where "parse_labels to_period (groupby_sum group_sum Bulan df) = Inr parsed"
    "list_all2 (\<lambda>pv kv. to_period (fst kv) = Inr (fst pv) \<and> snd pv = snd kv)
       parsed (groupby_sum group_sum Bulan df)"
    using parse_labels_ok by blast
  then show ?thesis by (auto simp: sales_by_month_def)
qed

lemma sales_by_month_totals:
  assumes "\<forall>l\<in>set (dropna (map Bulan df)). \<exists>p. to_period l = Inr p"
  shows "\<exists>monthly. sales_by_month to_period group_sum df = Inr monthly
           \<and> mset (map snd monthly) = mset (map snd (groupby_sum group_sum Bulan df))"
proof -
  obtain parsed where p:
    "list_all2 (\<lambda>pv kv. to_period (fst kv) = Inr (fst pv) \<and> snd pv = snd kv)
       parsed (groupby_sum group_sum Bulan df)"
    "sales_by_month to_period group_sum df =
       Inr (map (\<lambda>pv. (period_str (fst pv), snd pv))
              (sort_key (\<lambda>pv. period_ordinal (fst pv)) parsed))"
    using sales_by_month_parsed[OF assms] by blast
  have "mset (map snd (map (\<lambda>pv. (period_str (fst pv), snd pv))
                (sort_key (\<lambda>pv. period_ordinal (fst pv)) parsed)))
          = mset (map snd (sort_key (\<lambda>pv. period_ordinal (fst pv)) parsed))"
    by (simp add: comp_def)
  also have "\<dots> = mset (map snd parsed)" by simp
  also have "\<dots> = mset (map snd (groupby_sum group_sum Bulan df))"
    using list_all2_snd[OF p(1)] by simp
  finally show ?thesis using p(2) by blast
qed

lemma period_str_examples:
  "period_str \<lparr>p_year = 2023, p_month = 12\<rparr> = ''2023-12''"
  "period_str \<lparr>p_year = 2024, p_month = 1\<rparr> = ''2024-01''"
  "period_str \<lparr>p_year = 2024, p_month = 2\<rparr> = ''2024-02''"
  by (simp_all add: period_str_def zfill_def digit_char_def
      dec_str.simps[of 2024] dec_str.simps[of 2023] dec_str.simps[of 202] dec_str.simps[of 20]
      dec_str.simps[of 2] dec_str.simps[of "Suc 0"] dec_str.simps[of 12])

lemma groupby_month_example:
  "groupby_sum sum_list Bulan three_months
     = [(''Dec 2023'', 1), (''Feb 2024'', 5), (''Jan 2024'', 12)]"
  by code_simp

lemma groupby_product_example:
  "groupby_sum sum_list Produk three_months = [(''A'', 5), (''B'', 6), (''C'', 7)]"
  by code_simp

lemma three_months_labels:
  "dropna (map Bulan three_months) = [''Feb 2024'', ''Jan 2024'', ''Dec 2023'', ''Jan 2024'']"
  by (simp add: three_months_def sale_row_def)

lemma three_months_parsed:
  "map month_label_parser (dropna (map Bulan three_months))
     = [Inr \<lparr>p_year = 2024, p_month = 2\<rparr>, Inr \<lparr>p_year = 2024, p_month = 1\<rparr>,
        Inr \<lparr>p_year = 2023, p_month = 12\<rparr>, Inr \<lparr>p_year = 2024, p_month = 1\<rparr>]"
  by (simp add: three_months_labels month_label_parser_def)

lemma three_months_parse:
  "\<forall>l\<in>set (dropna (map Bulan three_months)). \<exists>p. month_label_parser l = Inr p"
  by (simp add: three_months_labels month_label_parser_def)

lemma two_regions_by_date:
  "date_filter two_regions [example_date, next_date] = Inr [order_bandung, order_jakarta]"
  by (simp add: date_filter_pair two_regions_def order_before_def order_bandung_def
      order_jakarta_def sale_row_def at_hour_def to_datetime_def toordinal_previous
      toordinal_example toordinal_next EPOCH_ORDINAL_def NS_PER_DAY_def)

lemma two_regions_options:
  "unique (map Wilayah two_regions) = [Some ''Jakarta'', Some ''Bandung'']"
  "unique (map Kategori two_regions) = [Some ''Elektronik'', Some ''Fashion'']"
  by (simp_all add: two_regions_def order_before_def order_bandung_def order_jakarta_def
      sale_row_def)

lemma twelve_products_grouped:
  "groupby_sum sum_list Produk twelve_products =
     [(''A'', 2), (''B'', 5), (''C'', 1), (''D'', 1), (''E'', 7), (''F'', 1),
      (''G'', 1), (''H'', 1), (''I'', 1), (''J'', 1), (''K'', 1), (''L'', 4)]"
  by code_simp

lemma eleven_products_top:
  "top_products_sales sum_list eleven_products =
     [(''A'', 1), (''B'', 1), (''C'', 1), (''D'', 1), (''E'', 1),
      (''F'', 1), (''G'', 1), (''H'', 1), (''I'', 1), (''J'', 1)]"
  by code_simp

lemma ulp_search_down:
  "0 < n \<Longrightarrow> x < u * 2 ^ 52 \<Longrightarrow> u > 1 / 2 ^ 1074
     \<Longrightarrow> ulp_search n u x = ulp_search (n - 1) (u / 2) x"
  by (cases n) simp_all

lemma ulp_search_up:
  "0 < n \<Longrightarrow> \<not> x < u * 2 ^ 52 \<Longrightarrow> u * 2 ^ 53 \<le> x
     \<Longrightarrow> ulp_search n u x = ulp_search (n - 1) (u * 2) x"
  by (cases n) simp_all

lemma ulp_search_here:
  "0 < n \<Longrightarrow> \<not> x < u * 2 ^ 52 \<Longrightarrow> \<not> u * 2 ^ 53 \<le> x \<Longrightarrow> ulp_search n u x = u"
  by (cases n) simp_all

lemmas float64_eval =
  float64_round_def round_half_even_def ulp_of_def ulp_search_down ulp_search_up ulp_search_here

text \<open>The binary64 numbers nearest to 0.1, 0.2, 0.3 and 1.1.\<close>

lemma float64_tenths:
  "float64_round (1 / 10) = 3602879701896397 / 2 ^ 55"
  "float64_round (1 / 5) = 3602879701896397 / 2 ^ 54"
  "float64_round (3 / 10) = 5404319552844595 / 2 ^ 54"
  "float64_round (11 / 10) = 4953959590107546 / 2 ^ 52"
  by (simp_all add: float64_eval)

text \<open>In float64, 0.1 + 0.2 + 0.3 is 0.6000000000000001, while 0.2 + 0.3 is 0.5.\<close>

lemma float64_sum_tenths:
  "float64_sum [float64_round (1 / 10), float64_round (1 / 5), float64_round (3 / 10)]
     = 5404319552844596 / 2 ^ 53"
  "float64_sum [float64_round (1 / 5), float64_round (3 / 10)] = 1 / 2"
  "float64_sum [float64_round (1 / 10)] = 3602879701896397 / 2 ^ 55"
  by (simp_all add: float64_sum_def float64_tenths float64_eval)

text \<open>In float64, 0.1 + 0.1 + 1.1 is 1.3.\<close>

lemma float64_sum_small:
  "float64_sum [float64_round (1 / 10), float64_round (1 / 10), float64_round (11 / 10)]
     = 5854679515581645 / 2 ^ 52"
  "float64_sum [float64_round (11 / 10)] = 4953959590107546 / 2 ^ 52"
  by (simp_all add: float64_sum_def float64_tenths float64_eval)

lemma sorted_keys_examples:
  "sort (unique (dropna [Some ''B'', Some ''A'', Some ''A''])) = [''A'', ''B'']"
  "sort (unique (dropna [Some ''P'', Some ''Q'', Some ''R''])) = [''P'', ''Q'', ''R'']"
  by code_simp+

lemma three_tenths_total:
  "total_sales float64_sum three_tenths = 5404319552844596 / 2 ^ 53"
  by (simp add: total_sales_def three_tenths_def sale_row_def float64_sum_tenths)

lemma three_tenths_by_category:
  "sales_by_category float64_sum three_tenths
     = [(''A'', 1 / 2), (''B'', 3602879701896397 / 2 ^ 55)]"
  by (simp add: sales_by_category_def groupby_sum_def three_tenths_def sale_row_def
      sorted_keys_examples float64_sum_tenths)

lemma small_amounts_total:
  "total_sales float64_sum small_amounts = 5854679515581645 / 2 ^ 52"
  by (simp add: total_sales_def small_amounts_def sale_row_def float64_sum_small)

lemma small_amounts_grouped:
  "groupby_sum float64_sum Produk small_amounts
     = [(''P'', 3602879701896397 / 2 ^ 55), (''Q'', 3602879701896397 / 2 ^ 55),
        (''R'', 4953959590107546 / 2 ^ 52)]"
  by (simp add: groupby_sum_def small_amounts_def sale_row_def sorted_keys_examples
      float64_sum_small float64_sum_tenths)

lemma small_amounts_top:
  "top_products_sales float64_sum small_amounts
     = [(''R'', 4953959590107546 / 2 ^ 52), (''P'', 3602879701896397 / 2 ^ 55),
        (''Q'', 3602879701896397 / 2 ^ 55)]"
  by (simp add: top_products_sales_def nlargest_def small_amounts_grouped)

lemma three_months_exact:
  "sums_exact float64_sum float64_sum Produk three_months"
  "sums_exact float64_sum float64_sum Kategori three_months"
  "sums_exact float64_sum float64_sum Bulan three_months"
  by (simp_all add: sums_exact_def three_months_def sale_row_def float64_sum_def float64_eval)

lemma twelve_products_exact:
  "sums_exact float64_sum float64_sum Produk twelve_products"
  by (simp add: sums_exact_def twelve_products_def sale_row_def float64_sum_def float64_eval)

lemma eleven_products_exact:
  "sums_exact float64_sum float64_sum Produk eleven_products"
  by (simp add: sums_exact_def eleven_products_def sale_row_def float64_sum_def float64_eval)

lemma three_months_float:
  "groupby_sum float64_sum Produk three_months = [(''A'', 5), (''B'', 6), (''C'', 7)]"
  "groupby_sum float64_sum Bulan three_months
     = [(''Dec 2023'', 1), (''Feb 2024'', 5), (''Jan 2024'', 12)]"
  "sales_by_month month_label_parser float64_sum three_months =
     Inr [(''2023-12'', 1), (''2024-01'', 12), (''2024-02'', 5)]"
  "total_sales float64_sum three_months = 18"
proof -
  show "groupby_sum float64_sum Produk three_months = [(''A'', 5), (''B'', 6), (''C'', 7)]"
    using groupby_sum_exact[OF three_months_exact(1)] groupby_product_example by simp
  show m: "groupby_sum float64_sum Bulan three_months
     = [(''Dec 2023'', 1), (''Feb 2024'', 5), (''Jan 2024'', 12)]"
    using groupby_sum_exact[OF three_months_exact(3)] groupby_month_example by simp
  show "sales_by_month month_label_parser float64_sum three_months =
     Inr [(''2023-12'', 1), (''2024-01'', 12), (''2024-02'', 5)]"
    by (simp add: sales_by_month_def m month_label_parser_def period_ordinal_def
        period_str_examples)
  show "total_sales float64_sum three_months = 18"
    using total_sales_exact[OF three_months_exact(1)]
    by (simp add: three_months_def sale_row_def)
qed

lemma twelve_products_float:
  "groupby_sum float64_sum Produk twelve_products =
     [(''A'', 2), (''B'', 5), (''C'', 1), (''D'', 1), (''E'', 7), (''F'', 1),
      (''G'', 1), (''H'', 1), (''I'', 1), (''J'', 1), (''K'', 1), (''L'', 4)]"
  "top_products_sales float64_sum twelve_products =
     [(''E'', 7), (''B'', 5), (''L'', 4), (''A'', 2), (''C'', 1), (''D'', 1),
      (''F'', 1), (''G'', 1), (''H'', 1), (''I'', 1)]"
  "total_sales float64_sum twelve_products = 29"
proof -
  show g: "groupby_sum float64_sum Produk twelve_products =
     [(''A'', 2), (''B'', 5), (''C'', 1), (''D'', 1), (''E'', 7), (''F'', 1),
      (''G'', 1), (''H'', 1), (''I'', 1), (''J'', 1), (''K'', 1), (''L'', 4)]"
    using groupby_sum_exact[OF twelve_products_exact] twelve_products_grouped by simp
  show "top_products_sales float64_sum twelve_products =
     [(''E'', 7), (''B'', 5), (''L'', 4), (''A'', 2), (''C'', 1), (''D'', 1),
      (''F'', 1), (''G'', 1), (''H'', 1), (''I'', 1)]"
    by (simp add: top_products_sales_def nlargest_def g)
  show "total_sales float64_sum twelve_products = 29"
    using total_sales_exact[OF twelve_products_exact]
    by (simp add: twelve_products_def sale_row_def)
qed

lemma eleven_products_float:
  "top_products_sales float64_sum eleven_products =
     [(''A'', 1), (''B'', 1), (''C'', 1), (''D'', 1), (''E'', 1),
      (''F'', 1), (''G'', 1), (''H'', 1), (''I'', 1), (''J'', 1)]"
  "total_sales float64_sum eleven_products = 5"
proof -
  show "top_products_sales float64_sum eleven_products =
     [(''A'', 1), (''B'', 1), (''C'', 1), (''D'', 1), (''E'', 1),
      (''F'', 1), (''G'', 1), (''H'', 1), (''I'', 1), (''J'', 1)]"
    using groupby_sum_exact[OF eleven_products_exact] eleven_products_top
    by (simp add: top_products_sales_def)
  show "total_sales float64_sum eleven_products = 5"
    using total_sales_exact[OF eleven_products_exact]
    by (simp add: eleven_products_def sale_row_def)
qed

section \<open>The prediction request builder\<close>

text \<open>
  Claim C1. With the feature list \<open>d, q, p, disc, wd, hr\<close> and the inputs target date
  2024-06-10, average quantity 2.0, average unit price 100.0, average discount 0.1,
  weekday Monday (index 0) and hour 14, the frame built for the model has the single row
  \<open>ordinal(2024-06-10), 2.0, 100.0, 0.1, 0, 14\<close> in that column order, the ordinal being
  739047, and each name of the feature list labels the value at its own position. The
  inputs are named widget values, so there is no order of supply that could matter.
\<close>

theorem input_for_prediction_feature_row:
  "input_for_prediction [''d'', ''q'', ''p'', ''disc'', ''wd'', ''hr'']
       (toordinal example_date) 2 100 (1 / 10) (day_of_week_map Senin) 14
     = Inr \<lparr>columns = [''d'', ''q'', ''p'', ''disc'', ''wd'', ''hr''],
            row = [IntCell (toordinal example_date), FloatCell 2, FloatCell 100,
                   FloatCell (1 / 10), IntCell 0, IntCell 14]\<rparr>
   \<and> toordinal example_date = 739047
   \<and> (let frame = \<lparr>columns = [''d'', ''q'', ''p'', ''disc'', ''wd'', ''hr''],
                     row = [IntCell (toordinal example_date), FloatCell 2, FloatCell 100,
                            FloatCell (1 / 10), IntCell 0, IntCell 14]\<rparr>
      in cell_of frame ''d'' = Some (IntCell 739047)
       \<and> cell_of frame ''q'' = Some (FloatCell 2)
       \<and> cell_of frame ''p'' = Some (FloatCell 100)
       \<and> cell_of frame ''disc'' = Some (FloatCell (1 / 10))
       \<and> cell_of frame ''wd'' = Some (IntCell 0)
       \<and> cell_of frame ''hr'' = Some (IntCell 14))"
  by (simp add: input_for_prediction_def toordinal_example cell_of_def Let_def)

section \<open>The filter\<close>

text \<open>
  Claim C2. The claim is that the filter keeps exactly the records whose order date lies
  in the closed date range, the boundary dates included. The code compares the order
  timestamp with midnight at the start of the end date, so a record ordered on the end
  date at 14:00 is dropped, although its calendar day is the end date; the same record
  ordered at midnight is kept. Here the code is evaluated on that input with the date range
  from 2024-06-10 to 2024-06-10 and the record's own region and category selected.
\<close>

theorem date_filter_drops_record_on_end_date:
  "ordinal_of_timestamp (at_hour example_date 14) = toordinal example_date
   \<and> filtered_df [sale_row ''O1'' (at_hour example_date 14) ''Laptop'' ''2024-06'' 100]
        [example_date, example_date] [Some ''Jakarta''] [Some ''Elektronik''] = Inr []
   \<and> filtered_df [sale_row ''O1'' (at_hour example_date 0) ''Laptop'' ''2024-06'' 100]
        [example_date, example_date] [Some ''Jakarta''] [Some ''Elektronik'']
       = Inr [sale_row ''O1'' (at_hour example_date 0) ''Laptop'' ''2024-06'' 100]"
  by (simp add: filtered_df_def date_filter_pair isin_filter_def sale_row_def at_hour_def
      to_datetime_def toordinal_example EPOCH_ORDINAL_def NS_PER_DAY_def
      ordinal_of_timestamp_def)

text \<open>
  Claim C3. When the date range has fewer than two endpoints the filter does not raise, and
  its result is the whole table filtered by the region and category selections only.
\<close>

theorem filtered_df_malformed_date_range:
  assumes "length dates < 2"
  shows "filtered_df df_sales dates regions categories
           = Inr (isin_filter Kategori categories
                    (isin_filter Wilayah regions df_sales))"
  using assms by (simp add: filtered_df_def date_filter_other)

theorem filtered_df_malformed_date_range_witness:
  "length [example_date] < 2
   \<and> filtered_df three_months [example_date] [Some ''Jakarta''] [Some ''Elektronik'']
       = Inr three_months"
proof -
  have h: "length [example_date] < 2" by simp
  have "isin_filter Kategori [Some ''Elektronik'']
          (isin_filter Wilayah [Some ''Jakarta''] three_months)
          = three_months"
    by (simp add: isin_filter_def three_months_def sale_row_def)
  then show ?thesis
    using h filtered_df_malformed_date_range[OF h, of three_months "[Some ''Jakarta'']"
        "[Some ''Elektronik'']"]
    by simp
qed

text \<open>
  Claim C7. With the region selection equal to the set of regions present in the data and
  the category selection equal to the set of categories present in the data, the filter
  returns, for every date range, the table that the date step alone returns, hence the same
  number of records.
\<close>

theorem full_selection_is_identity:
  assumes "set regions = set (map Wilayah df_sales)"
    and "set categories = set (map Kategori df_sales)"
  shows "\<exists>by_date both.
           date_filter df_sales dates = Inr by_date
         \<and> filtered_df df_sales dates regions categories = Inr both
         \<and> both = by_date
         \<and> length both = length by_date"
proof -
  obtain rows where r: "date_filter df_sales dates = Inr rows" "set rows \<subseteq> set df_sales"
    using date_filter_total by blast
  have 1: "isin_filter Wilayah regions rows = rows"
    using r(2) assms(1) by (intro isin_filter_id) auto
  have 2: "isin_filter Kategori categories rows = rows"
    using r(2) assms(2) by (intro isin_filter_id) auto
  show ?thesis using r(1) 1 2 by (simp add: filtered_df_def)
qed

text \<open>
  On the table of three orders in two regions and two categories, with the range from
  2024-06-10 to 2024-06-11: the date step drops the order of 2024-06-09 and keeps the other
  two, which differ in region and in category; with every region and every category
  selected the filter returns those two; with one region selected it returns one.
\<close>

theorem full_selection_is_identity_witness:
  "set (unique (map Wilayah two_regions)) = set (map Wilayah two_regions)
   \<and> set (unique (map Kategori two_regions)) = set (map Kategori two_regions)
   \<and> unique (map Wilayah two_regions) = [Some ''Jakarta'', Some ''Bandung'']
   \<and> unique (map Kategori two_regions) = [Some ''Elektronik'', Some ''Fashion'']
   \<and> two_regions = [order_before, order_bandung, order_jakarta]
   \<and> date_filter two_regions [example_date, next_date] = Inr [order_bandung, order_jakarta]
   \<and> filtered_df two_regions [example_date, next_date]
         (unique (map Wilayah two_regions)) (unique (map Kategori two_regions))
       = Inr [order_bandung, order_jakarta]
   \<and> filtered_df two_regions [example_date, next_date]
         [Some ''Jakarta''] (unique (map Kategori two_regions))
       = Inr [order_jakarta]"
proof -
  have h1: "set (unique (map Wilayah two_regions)) = set (map Wilayah two_regions)"
    by (rule set_unique)
  have h2: "set (unique (map Kategori two_regions)) = set (map Kategori two_regions)"
    by (rule set_unique)
  obtain by_date both where
    b: "date_filter two_regions [example_date, next_date] = Inr by_date"
       "filtered_df two_regions [example_date, next_date]
          (unique (map Wilayah two_regions)) (unique (map Kategori two_regions)) = Inr both"
       "both = by_date"
    using full_selection_is_identity[OF h1 h2, of "[example_date, next_date]"] by blast
  have full: "filtered_df two_regions [example_date, next_date]
         (unique (map Wilayah two_regions)) (unique (map Kategori two_regions))
       = Inr [order_bandung, order_jakarta]"
    using b two_regions_by_date by simp
  have one: "filtered_df two_regions [example_date, next_date]
         [Some ''Jakarta''] (unique (map Kategori two_regions))
       = Inr [order_jakarta]"
    by (simp add: filtered_df_def two_regions_by_date two_regions_options isin_filter_def
        order_bandung_def order_jakarta_def sale_row_def)
  have tr: "two_regions = [order_before, order_bandung, order_jakarta]"
    by (rule two_regions_def)
  show ?thesis
    using h1 h2 two_regions_options two_regions_by_date full one tr
    by blast
qed

section \<open>The aggregations\<close>

text \<open>
  Claim C4, as stated, fails on a table of eleven products, each with one record, ten with
  total 1 and one with total -5, whose first two records are of product B and then of
  product A. The ten largest totals sum to 10 while the total sales are 5; and among the
  equal totals product A comes before product B, although B is encountered first in the
  records: the ties are in the order of the grouped table, which is sorted by product.
  The bound also fails with no negative amount, by rounding: on three products with the
  float64 amounts 0.1, 0.1 and 1.1 the total sales are 1.3, while the top totals 1.1, 0.1,
  0.1 sum to 1.3000000000000003 in float64 and exceed the total sales as exact numbers too.
\<close>

theorem top_products_sum_counterexample:
  "top_products_sales float64_sum eleven_products =
     [(''A'', 1), (''B'', 1), (''C'', 1), (''D'', 1), (''E'', 1),
      (''F'', 1), (''G'', 1), (''H'', 1), (''I'', 1), (''J'', 1)]
   \<and> map Produk (take 2 eleven_products) = [Some ''B'', Some ''A'']
   \<and> sum_list (map snd (top_products_sales float64_sum eleven_products)) = 10
   \<and> total_sales float64_sum eleven_products = 5
   \<and> \<not> sum_list (map snd (top_products_sales float64_sum eleven_products))
         \<le> total_sales float64_sum eleven_products
   \<and> list_all (\<lambda>r. 0 \<le> Total_Penjualan r) small_amounts
   \<and> top_products_sales float64_sum small_amounts
       = [(''R'', 4953959590107546 / 2 ^ 52), (''P'', 3602879701896397 / 2 ^ 55),
          (''Q'', 3602879701896397 / 2 ^ 55)]
   \<and> float64_sum (map snd (top_products_sales float64_sum small_amounts))
       = 5854679515581646 / 2 ^ 52
   \<and> total_sales float64_sum small_amounts = 5854679515581645 / 2 ^ 52
   \<and> \<not> float64_sum (map snd (top_products_sales float64_sum small_amounts))
         \<le> total_sales float64_sum small_amounts
   \<and> \<not> sum_list (map snd (top_products_sales float64_sum small_amounts))
         \<le> total_sales float64_sum small_amounts"
proof -
  note t = eleven_products_float(2)
  have p: "map Produk (take 2 eleven_products) = [Some ''B'', Some ''A'']"
    by (simp add: eleven_products_def sale_row_def)
  have n: "list_all (\<lambda>r. 0 \<le> Total_Penjualan r) small_amounts"
    by (simp add: small_amounts_def sale_row_def float64_tenths)
  have f: "float64_sum (map snd (top_products_sales float64_sum small_amounts))
       = 5854679515581646 / 2 ^ 52"
    by (simp add: small_amounts_top float64_sum_def float64_eval)
  have g: "\<not> sum_list (map snd (top_products_sales float64_sum small_amounts))
         \<le> total_sales float64_sum small_amounts"
    by (simp add: small_amounts_top small_amounts_total)
  have h: "\<not> float64_sum (map snd (top_products_sales float64_sum small_amounts))
         \<le> total_sales float64_sum small_amounts"
    by (simp add: f small_amounts_total)
  have e: "sum_list (map snd (top_products_sales float64_sum eleven_products)) = 10"
    "\<not> sum_list (map snd (top_products_sales float64_sum eleven_products))
         \<le> total_sales float64_sum eleven_products"
    by (simp_all add: eleven_products_float)
  show ?thesis
    using t p n f g h e eleven_products_float(1) small_amounts_top small_amounts_total
    by blast
qed

text \<open>
  Claim C4, amended. The table of top products groups the records by product (a record
  without a product is in no group) and has as many rows as there are products, but at most
  10; each row is a product of the filtered table with the library's sum of the total
  amounts of its records; the rows are in descending order of total; they are the largest
  totals (every product left out has a total no larger than every row kept); rows with
  equal totals keep the order they have in the grouped table, which is ascending in the
  product name, the first of them being the ones kept. When no record has a negative total
  amount and the sums of the table incur no rounding, the totals of the rows sum to at most
  the total sales.
\<close>

theorem top_products_sales_spec:
  "length (top_products_sales group_sum df) = min 10 (length (unique (dropna (map Produk df))))
   \<and> length (top_products_sales group_sum df) \<le> 10
   \<and> (\<forall>kv\<in>set (top_products_sales group_sum df).
         Some (fst kv) \<in> Produk ` set df
       \<and> snd kv = group_sum (map Total_Penjualan (filter (\<lambda>r. Produk r = Some (fst kv)) df)))
   \<and> sorted_wrt (\<lambda>a b. snd a \<ge> snd b) (top_products_sales group_sum df)
   \<and> (\<exists>rest. mset (top_products_sales group_sum df @ rest) = mset (groupby_sum group_sum Produk df)
          \<and> (\<forall>a\<in>set (top_products_sales group_sum df). \<forall>b\<in>set rest. snd b \<le> snd a))
   \<and> sorted (map fst (groupby_sum group_sum Produk df))
   \<and> distinct (map fst (groupby_sum group_sum Produk df))
   \<and> (\<forall>v. \<exists>m. filter (\<lambda>kv. snd kv = v) (top_products_sales group_sum df)
                  = take m (filter (\<lambda>kv. snd kv = v) (groupby_sum group_sum Produk df)))
   \<and> (sums_exact series_sum group_sum Produk df \<and> (\<forall>r\<in>set df. 0 \<le> Total_Penjualan r)
        \<longrightarrow> sum_list (map snd (top_products_sales group_sum df)) \<le> total_sales series_sum df)"
proof -
  have 0: "length (top_products_sales group_sum df)
             = min 10 (length (unique (dropna (map Produk df))))"
    unfolding top_products_sales_def nlargest_length
    using arg_cong[OF groupby_sum_keys[of group_sum Produk df], of length] by simp
  then have 1: "length (top_products_sales group_sum df) \<le> 10" by simp
  have 2: "\<forall>kv\<in>set (top_products_sales group_sum df).
         Some (fst kv) \<in> Produk ` set df
       \<and> snd kv = group_sum (map Total_Penjualan (filter (\<lambda>r. Produk r = Some (fst kv)) df))"
    unfolding top_products_sales_def using nlargest_subset groupby_sum_row by blast
  have 3: "sorted_wrt (\<lambda>a b. snd a \<ge> snd b) (top_products_sales group_sum df)"
    unfolding top_products_sales_def by (rule nlargest_sorted)
  have 4: "\<exists>rest. mset (top_products_sales group_sum df @ rest) = mset (groupby_sum group_sum Produk df)
          \<and> (\<forall>a\<in>set (top_products_sales group_sum df). \<forall>b\<in>set rest. snd b \<le> snd a)"
    unfolding top_products_sales_def by (rule nlargest_rest)
  have 5: "sorted (map fst (groupby_sum group_sum Produk df))"
    by (simp add: groupby_sum_keys)
  have 6: "distinct (map fst (groupby_sum group_sum Produk df))"
    by (rule groupby_sum_keys_distinct)
  have 7: "\<forall>v. \<exists>m. filter (\<lambda>kv. snd kv = v) (top_products_sales group_sum df)
                  = take m (filter (\<lambda>kv. snd kv = v) (groupby_sum group_sum Produk df))"
    unfolding top_products_sales_def using nlargest_stable by blast
  have 8: "sums_exact series_sum group_sum Produk df \<and> (\<forall>r\<in>set df. 0 \<le> Total_Penjualan r)
        \<longrightarrow> sum_list (map snd (top_products_sales group_sum df)) \<le> total_sales series_sum df"
    using top_products_sum_le by blast
  show ?thesis using 0 1 2 3 4 5 6 7 8 by blast
qed

text \<open>
  On the table of twelve products and one record without a product, no amount negative: the
  grouped table has twelve rows, the top table the ten largest, the cut falling among
  eight products of total 1, of which the first six by name (C, D, F, G, H, I) are kept
  and J and K are left out, although K and J come first in the records.
\<close>

theorem top_products_sales_spec_witness:
  "sums_exact float64_sum float64_sum Produk twelve_products
   \<and> list_all (\<lambda>r. 0 \<le> Total_Penjualan r) twelve_products
   \<and> groupby_sum float64_sum Produk twelve_products =
       [(''A'', 2), (''B'', 5), (''C'', 1), (''D'', 1), (''E'', 7), (''F'', 1),
        (''G'', 1), (''H'', 1), (''I'', 1), (''J'', 1), (''K'', 1), (''L'', 4)]
   \<and> top_products_sales float64_sum twelve_products =
       [(''E'', 7), (''B'', 5), (''L'', 4), (''A'', 2), (''C'', 1), (''D'', 1),
        (''F'', 1), (''G'', 1), (''H'', 1), (''I'', 1)]
   \<and> length (unique (dropna (map Produk twelve_products))) = 12
   \<and> length (top_products_sales float64_sum twelve_products) = 10
   \<and> total_sales float64_sum twelve_products = 29
   \<and> sum_list (map snd (top_products_sales float64_sum twelve_products))
       \<le> total_sales float64_sum twelve_products"
proof -
  note e = twelve_products_exact
  have n: "list_all (\<lambda>r. 0 \<le> Total_Penjualan r) twelve_products"
    by (simp add: twelve_products_def sale_row_def)
  then have n': "\<forall>r\<in>set twelve_products. 0 \<le> Total_Penjualan r"
    by (simp add: list_all_iff)
  have k: "length (unique (dropna (map Produk twelve_products))) = 12"
    by (simp add: twelve_products_def sale_row_def)
  note s = twelve_products_float(3)
  note spec = top_products_sales_spec[where group_sum = float64_sum and df = twelve_products
      and series_sum = float64_sum]
  have l: "length (top_products_sales float64_sum twelve_products) = 10"
    using spec k by simp
  have b: "sum_list (map snd (top_products_sales float64_sum twelve_products))
             \<le> total_sales float64_sum twelve_products"
    using spec e n' by blast
  show ?thesis
    using e n k s l b twelve_products_float(1) twelve_products_float(2) by blast
qed

text \<open>
  Claim C5. When every month label of the filtered table parses, the monthly table is
  returned, and it is the grouped table (one row per label, with the sum of its total
  amounts) with its labels converted to months, its rows put in chronological order of
  those months, and the months rendered as strings after the sort. The labels may come in
  any order, and the order of the result is that of the months, not of the label strings.
\<close>

theorem sales_by_month_chronological:
  assumes "\<forall>l\<in>set (dropna (map Bulan df)). \<exists>p. to_period l = Inr p"
  shows "\<exists>parsed rows.
           list_all2 (\<lambda>pv kv. to_period (fst kv) = Inr (fst pv) \<and> snd pv = snd kv)
             parsed (groupby_sum group_sum Bulan df)
         \<and> mset rows = mset parsed
         \<and> sorted (map (\<lambda>pv. period_ordinal (fst pv)) rows)
         \<and> sales_by_month to_period group_sum df
             = Inr (map (\<lambda>pv. (period_str (fst pv), snd pv)) rows)"
proof -
  obtain parsed where p:
    "list_all2 (\<lambda>pv kv. to_period (fst kv) = Inr (fst pv) \<and> snd pv = snd kv)
       parsed (groupby_sum group_sum Bulan df)"
    "sales_by_month to_period group_sum df =
       Inr (map (\<lambda>pv. (period_str (fst pv), snd pv))
              (sort_key (\<lambda>pv. period_ordinal (fst pv)) parsed))"
    using sales_by_month_parsed[OF assms] by blast
  let ?rows = "sort_key (\<lambda>pv. period_ordinal (fst pv)) parsed"
  have "mset ?rows = mset parsed" by simp
  moreover have "sorted (map (\<lambda>pv. period_ordinal (fst pv)) ?rows)" by (rule sorted_sort_key)
  ultimately show ?thesis using p by blast
qed

theorem sales_by_month_chronological_witness:
  "map month_label_parser (dropna (map Bulan three_months))
     = [Inr \<lparr>p_year = 2024, p_month = 2\<rparr>, Inr \<lparr>p_year = 2024, p_month = 1\<rparr>,
        Inr \<lparr>p_year = 2023, p_month = 12\<rparr>, Inr \<lparr>p_year = 2024, p_month = 1\<rparr>]
   \<and> dropna (map Bulan three_months) = [''Feb 2024'', ''Jan 2024'', ''Dec 2023'', ''Jan 2024'']
   \<and> map fst (groupby_sum float64_sum Bulan three_months)
       = [''Dec 2023'', ''Feb 2024'', ''Jan 2024'']
   \<and> sales_by_month month_label_parser float64_sum three_months
       = Inr [(''2023-12'', 1), (''2024-01'', 12), (''2024-02'', 5)]
   \<and> (\<exists>parsed rows.
         list_all2 (\<lambda>pv kv. month_label_parser (fst kv) = Inr (fst pv) \<and> snd pv = snd kv)
           parsed (groupby_sum float64_sum Bulan three_months)
       \<and> mset rows = mset parsed
       \<and> sorted (map (\<lambda>pv. period_ordinal (fst pv)) rows)
       \<and> sales_by_month month_label_parser float64_sum three_months
           = Inr (map (\<lambda>pv. (period_str (fst pv), snd pv)) rows))"
proof -
  have k: "map fst (groupby_sum float64_sum Bulan three_months)
             = [''Dec 2023'', ''Feb 2024'', ''Jan 2024'']"
    by (simp add: three_months_float)
  show ?thesis
    using three_months_parsed three_months_labels k three_months_float(3)
      sales_by_month_chronological[OF three_months_parse, where group_sum = float64_sum]
    by blast
qed




text \<open>
  Claim C10, as stated, fails in two ways. \<open>groupby\<close> leaves out the records whose key is
  missing: a table of one record of total 5 without a category has total sales 5 and an
  empty table by category, whose totals sum to 0. And float64 sums round: on three records
  with the float64 amounts 0.1 (category B), 0.2 and 0.3 (category A), no key missing, the
  total sales are 0.6000000000000001, while the totals by category are 0.5 and 0.1, whose
  sum is 0.6 in float64 and differs from the total sales as an exact number too.
\<close>

theorem groupby_sum_total_counterexample:
  "total_sales float64_sum [(sale_row ''O1'' 0 ''Laptop'' ''Jan 2024'' 5)\<lparr>Kategori := None\<rparr>] = 5
   \<and> sales_by_category float64_sum [(sale_row ''O1'' 0 ''Laptop'' ''Jan 2024'' 5)\<lparr>Kategori := None\<rparr>]
       = []
   \<and> sum_list (map snd (sales_by_category float64_sum
         [(sale_row ''O1'' 0 ''Laptop'' ''Jan 2024'' 5)\<lparr>Kategori := None\<rparr>])) = 0
   \<and> map Kategori three_tenths = [Some ''B'', Some ''A'', Some ''A'']
   \<and> total_sales float64_sum three_tenths = 5404319552844596 / 2 ^ 53
   \<and> sales_by_category float64_sum three_tenths
       = [(''A'', 1 / 2), (''B'', 3602879701896397 / 2 ^ 55)]
   \<and> float64_sum (map snd (sales_by_category float64_sum three_tenths))
       = 5404319552844595 / 2 ^ 53
   \<and> float64_sum (map snd (sales_by_category float64_sum three_tenths))
       \<noteq> total_sales float64_sum three_tenths
   \<and> sum_list (map snd (sales_by_category float64_sum three_tenths))
       \<noteq> total_sales float64_sum three_tenths"
proof -
  have m: "total_sales float64_sum [(sale_row ''O1'' 0 ''Laptop'' ''Jan 2024'' 5)\<lparr>Kategori := None\<rparr>] = 5"
    "sales_by_category float64_sum [(sale_row ''O1'' 0 ''Laptop'' ''Jan 2024'' 5)\<lparr>Kategori := None\<rparr>]
       = []"
    "sum_list (map snd (sales_by_category float64_sum
         [(sale_row ''O1'' 0 ''Laptop'' ''Jan 2024'' 5)\<lparr>Kategori := None\<rparr>])) = 0"
    by (simp_all add: total_sales_def sales_by_category_def groupby_sum_def sale_row_def
        float64_sum_def float64_eval)
  have k: "map Kategori three_tenths = [Some ''B'', Some ''A'', Some ''A'']"
    by (simp add: three_tenths_def sale_row_def)
  have f: "float64_sum (map snd (sales_by_category float64_sum three_tenths))
       = 5404319552844595 / 2 ^ 53"
    by (simp add: three_tenths_by_category float64_sum_def float64_eval)
  have g: "float64_sum (map snd (sales_by_category float64_sum three_tenths))
       \<noteq> total_sales float64_sum three_tenths"
    by (simp add: f three_tenths_total)
  have h: "sum_list (map snd (sales_by_category float64_sum three_tenths))
       \<noteq> total_sales float64_sum three_tenths"
    by (simp add: three_tenths_by_category three_tenths_total)
  show ?thesis
    using m k f g h three_tenths_total three_tenths_by_category by blast
qed

text \<open>
  Claim C10, amended. Every group-by-sum table, whatever the key column, has one row per
  key present in the filtered table, the keys distinct and in ascending order; the total of
  a row is the library's sum of the total amounts of exactly the records carrying its key;
  the groups partition the records that have a key, none lost and none counted twice (the
  records without a key are in no group). The tables by category, by payment method and by
  region are such tables, and the monthly table, returned whenever every month label
  parses, has the totals of the table grouped by month label. When no key is missing and
  the sums of the table incur no rounding, the totals of the table sum to the total sales.
\<close>

theorem groupby_sum_partitions_rows:
  "sorted (map fst (groupby_sum group_sum col df))
   \<and> distinct (map fst (groupby_sum group_sum col df))
   \<and> set (map fst (groupby_sum group_sum col df)) = set (dropna (map col df))
   \<and> map snd (groupby_sum group_sum col df)
       = map (\<lambda>k. group_sum (map Total_Penjualan (filter (\<lambda>r. col r = Some k) df)))
           (map fst (groupby_sum group_sum col df))
   \<and> mset (concat (map (\<lambda>k. filter (\<lambda>r. col r = Some k) df)
                      (map fst (groupby_sum group_sum col df))))
       = mset (filter (\<lambda>r. col r \<noteq> None) df)
   \<and> (sums_exact series_sum group_sum col df \<and> None \<notin> set (map col df)
        \<longrightarrow> sum_list (map snd (groupby_sum group_sum col df)) = total_sales series_sum df)
   \<and> sales_by_category group_sum df = groupby_sum group_sum Kategori df
   \<and> sales_by_payment group_sum df = groupby_sum group_sum Metode_Pembayaran df
   \<and> sales_by_region group_sum df = groupby_sum group_sum Wilayah df
   \<and> ((\<forall>l\<in>set (dropna (map Bulan df)). \<exists>p. to_period l = Inr p)
        \<longrightarrow> (\<exists>monthly. sales_by_month to_period group_sum df = Inr monthly
               \<and> mset (map snd monthly) = mset (map snd (groupby_sum group_sum Bulan df))
               \<and> (sums_exact series_sum group_sum Bulan df \<and> None \<notin> set (map Bulan df)
                    \<longrightarrow> sum_list (map snd monthly) = total_sales series_sum df)))"
proof -
  have 1: "sorted (map fst (groupby_sum group_sum col df))"
    by (simp add: groupby_sum_keys)
  have 2: "distinct (map fst (groupby_sum group_sum col df))"
    by (rule groupby_sum_keys_distinct)
  have 3: "set (map fst (groupby_sum group_sum col df)) = set (dropna (map col df))"
    by (rule groupby_sum_keys_set)
  have 4: "map snd (groupby_sum group_sum col df)
       = map (\<lambda>k. group_sum (map Total_Penjualan (filter (\<lambda>r. col r = Some k) df)))
           (map fst (groupby_sum group_sum col df))"
    by (rule groupby_sum_values)
  have 5: "mset (concat (map (\<lambda>k. filter (\<lambda>r. col r = Some k) df)
                      (map fst (groupby_sum group_sum col df))))
       = mset (filter (\<lambda>r. col r \<noteq> None) df)"
    by (rule groupby_sum_partition)
  have 6: "sums_exact series_sum group_sum col df \<and> None \<notin> set (map col df)
        \<longrightarrow> sum_list (map snd (groupby_sum group_sum col df)) = total_sales series_sum df"
    using groupby_sum_total by blast
  have 7: "sales_by_category group_sum df = groupby_sum group_sum Kategori df"
    "sales_by_payment group_sum df = groupby_sum group_sum Metode_Pembayaran df"
    "sales_by_region group_sum df = groupby_sum group_sum Wilayah df"
    by (simp_all add: sales_by_category_def sales_by_payment_def sales_by_region_def)
  have 8: "\<exists>monthly. sales_by_month to_period group_sum df = Inr monthly
               \<and> mset (map snd monthly) = mset (map snd (groupby_sum group_sum Bulan df))
               \<and> (sums_exact series_sum group_sum Bulan df \<and> None \<notin> set (map Bulan df)
                    \<longrightarrow> sum_list (map snd monthly) = total_sales series_sum df)"
    if labels: "\<forall>l\<in>set (dropna (map Bulan df)). \<exists>p. to_period l = Inr p"
  proof -
    obtain monthly where m: "sales_by_month to_period group_sum df = Inr monthly"
      "mset (map snd monthly) = mset (map snd (groupby_sum group_sum Bulan df))"
      using sales_by_month_totals[OF labels] by blast
    have "sum_list (map snd monthly) = sum_list (map snd (groupby_sum group_sum Bulan df))"
      using m(2) by (metis sum_mset_sum_list)
    then have "sums_exact series_sum group_sum Bulan df \<and> None \<notin> set (map Bulan df)
                    \<longrightarrow> sum_list (map snd monthly) = total_sales series_sum df"
      using groupby_sum_total[of series_sum group_sum Bulan df] by simp
    then show ?thesis using m by blast
  qed
  show ?thesis using 1 2 3 4 5 6 7 8 by blast
qed

text \<open>
  On the table of four records in three months and three products: grouped by product,
  the two records of product B, which are not adjacent, make one row; the totals by
  product, by category and by month each sum to the total sales 18.
\<close>

theorem groupby_sum_partitions_rows_witness:
  "sums_exact float64_sum float64_sum Produk three_months
   \<and> None \<notin> set (map Produk three_months)
   \<and> map month_label_parser (dropna (map Bulan three_months))
       = [Inr \<lparr>p_year = 2024, p_month = 2\<rparr>, Inr \<lparr>p_year = 2024, p_month = 1\<rparr>,
          Inr \<lparr>p_year = 2023, p_month = 12\<rparr>, Inr \<lparr>p_year = 2024, p_month = 1\<rparr>]
   \<and> map Produk three_months = [Some ''B'', Some ''A'', Some ''B'', Some ''C'']
   \<and> groupby_sum float64_sum Produk three_months = [(''A'', 5), (''B'', 6), (''C'', 7)]
   \<and> sales_by_month month_label_parser float64_sum three_months
       = Inr [(''2023-12'', 1), (''2024-01'', 12), (''2024-02'', 5)]
   \<and> total_sales float64_sum three_months = 18
   \<and> sum_list (map snd (groupby_sum float64_sum Produk three_months))
       = total_sales float64_sum three_months
   \<and> sum_list (map snd (sales_by_category float64_sum three_months))
       = total_sales float64_sum three_months
   \<and> (\<exists>monthly. sales_by_month month_label_parser float64_sum three_months = Inr monthly
        \<and> sum_list (map snd monthly) = total_sales float64_sum three_months)"
proof -
  have p: "map Produk three_months = [Some ''B'', Some ''A'', Some ''B'', Some ''C'']"
    by (simp add: three_months_def sale_row_def)
  have np: "None \<notin> set (map Produk three_months)" by (simp add: p)
  have nk: "None \<notin> set (map Kategori three_months)"
    by (simp add: three_months_def sale_row_def)
  have nb: "None \<notin> set (map Bulan three_months)"
    by (simp add: three_months_def sale_row_def)
  have a: "sum_list (map snd (groupby_sum float64_sum Produk three_months))
       = total_sales float64_sum three_months"
    using groupby_sum_partitions_rows[where group_sum = float64_sum and col = Produk
        and df = three_months and series_sum = float64_sum]
      three_months_exact(1) np by blast
  have b: "sum_list (map snd (sales_by_category float64_sum three_months))
       = total_sales float64_sum three_months"
    using groupby_sum_partitions_rows[where group_sum = float64_sum and col = Kategori
        and df = three_months and series_sum = float64_sum]
      three_months_exact(2) nk by simp
  have c: "\<exists>monthly. sales_by_month month_label_parser float64_sum three_months = Inr monthly
        \<and> sum_list (map snd monthly) = total_sales float64_sum three_months"
    using groupby_sum_partitions_rows[where group_sum = float64_sum and col = Bulan
        and df = three_months and to_period = month_label_parser and series_sum = float64_sum]
      three_months_parse three_months_exact(3) nb by blast
  show ?thesis
    using three_months_exact(1) np three_months_parsed p
      three_months_float(1) three_months_float(3) three_months_float(4) a b c
    by blast
qed

section \<open>The run of the script\<close>

text \<open>
  Claim C8. On the Overview page, when the filtered table has no records, the run shows a
  warning (not an error box) and stops there: nothing that shows an aggregate or a chart is
  rendered, and the closing lines of the page are not reached.
\<close>

theorem empty_result_warns_and_stops:
  assumes "pilihan_halaman w = Overview_Dashboard"
    and "filtered_df df_sales (date_range w) (selected_regions w) (selected_categories w) = Inr []"
  shows "script to_period predict st_write series_sum group_sum df_sales model_features w =
           ([Title, Markdown, Markdown,
             Warning ''Tidak ada data yang tersedia berdasarkan filter yang Anda pilih. Silakan sesuaikan filter.''],
            Stopped)
         \<and> filter is_aggregate
             (fst (script to_period predict st_write series_sum group_sum df_sales model_features w))
             = []
         \<and> filter is_error_box
             (fst (script to_period predict st_write series_sum group_sum df_sales model_features w))
             = []"
  using assms by (simp add: script_def and_then_def say_def)

theorem empty_result_warns_and_stops_witness:
  "pilihan_halaman (example_widgets\<lparr>pilihan_halaman := Overview_Dashboard, selected_regions := []\<rparr>)
     = Overview_Dashboard
   \<and> filtered_df three_months [example_date, example_date] [] [Some ''Elektronik''] = Inr []
   \<and> script month_label_parser failing_estimator st_write_distinct float64_sum float64_sum three_months
        [''d'', ''q'', ''p'', ''disc'', ''wd'', ''hr'']
        (example_widgets\<lparr>pilihan_halaman := Overview_Dashboard, selected_regions := []\<rparr>)
       = ([Title, Markdown, Markdown,
           Warning ''Tidak ada data yang tersedia berdasarkan filter yang Anda pilih. Silakan sesuaikan filter.''],
          Stopped)"
proof -
  let ?w = "example_widgets\<lparr>pilihan_halaman := Overview_Dashboard, selected_regions := []\<rparr>"
  have h1: "pilihan_halaman ?w = Overview_Dashboard" by simp
  have e: "filtered_df three_months [example_date, example_date] [] [Some ''Elektronik''] = Inr []"
    by (simp add: filtered_df_def date_filter_pair isin_filter_def)
  have h2: "filtered_df three_months (date_range ?w) (selected_regions ?w) (selected_categories ?w)
              = Inr []"
    using e by (simp add: example_widgets_def)
  show ?thesis
    using h1 e
      empty_result_warns_and_stops[OF h1 h2, where to_period = month_label_parser
        and predict = failing_estimator and st_write = st_write_distinct
        and series_sum = float64_sum and group_sum = float64_sum
        and model_features = "[''d'', ''q'', ''p'', ''disc'', ''wd'', ''hr'']"]
    by simp
qed

text \<open>
  Claim C9, as stated, fails in two ways. The feature row is built before the \<open>try\<close>, so
  with a feature list of five names the constructor's exception ends the run: no message
  box is shown and the closing lines are not reached. And a prediction that succeeds does
  not always lead to the display of the feature row: with six names of which two are the
  same, an estimator that returns 250 and a display that refuses duplicate column names,
  the predicted value is shown and then, in place of the feature row, the error box.
\<close>

theorem prediction_claim_counterexample:
  "script month_label_parser failing_estimator st_write_distinct float64_sum float64_sum three_months
       [''d'', ''q'', ''p'', ''disc'', ''wd''] example_widgets
     = ([Title, Markdown, Markdown,
         Header ''Prediksi Penjualan Sederhana'',
         Write ''Gunakan bagian ini untuk memprediksi potensi total penjualan'',
         Subheader ''Input Parameter Prediksi'',
         Markdown],
        Raised (ValueError ''columns passed do not match the data''))
   \<and> script month_label_parser constant_estimator st_write_distinct float64_sum float64_sum three_months
       [''d'', ''q'', ''p'', ''disc'', ''wd'', ''d''] example_widgets
     = ([Title, Markdown, Markdown,
         Header ''Prediksi Penjualan Sederhana'',
         Write ''Gunakan bagian ini untuk memprediksi potensi total penjualan'',
         Subheader ''Input Parameter Prediksi'',
         Markdown,
         Predict \<lparr>columns = [''d'', ''q'', ''p'', ''disc'', ''wd'', ''d''],
                  row = [IntCell 739047, FloatCell 2, FloatCell 100, FloatCell (1 / 10),
                         IntCell 0, IntCell 14]\<rparr>,
         Success 250,
         Info,
         Markdown,
         Subheader ''Fitur yang Digunakan untuk Prediksi:'',
         Error_box ''Terjadi kesalahan saat melakukan prediksi: Duplicate column names found. Pastikan semua input valid.'',
         Markdown, Caption],
        Completed)"
  by (simp add: script_def and_then_def say_def raise_def prediction_page_def
      input_for_prediction_def example_widgets_def predicted_sales_value_def
      constant_estimator_def py_index_def st_write_distinct_def toordinal_example)

text \<open>
  Claim C9, amended. On the Prediction page, when the button is pressed and the feature list
  has six names, the feature row is assembled and the estimator is called once. If the call
  (or taking its first prediction) fails, the failure is caught and shown in an error box
  whose text carries the message of the cause. If it succeeds, the predicted value is
  shown, and then the assembled feature row; if the display of the row fails, that failure
  is caught and shown in the error box, after the predicted value, in place of the row. In
  every case the run goes on to the closing lines of the page, and there is no second call
  of the estimator.
\<close>

theorem prediction_attempt_outcome:
  assumes "pilihan_halaman w = Prediksi_Penjualan"
    and "button w"
    and "length model_features = 6"
  shows "\<exists>frame.
           input_for_prediction model_features (toordinal (target_date w)) (avg_quantity w)
               (avg_unit_price w) (avg_discount w) (day_of_week_map (day_of_week w)) (hour_of_day w)
             = Inr frame
         \<and> columns frame = model_features
         \<and> row frame = [IntCell (toordinal (target_date w)), FloatCell (avg_quantity w),
                         FloatCell (avg_unit_price w), FloatCell (avg_discount w),
                         IntCell (day_of_week_map (day_of_week w)), IntCell (hour_of_day w)]
         \<and> script to_period predict st_write series_sum group_sum df_sales model_features w =
             (case predicted_sales_value predict frame of
                Inl e \<Rightarrow>
                  ([Title, Markdown, Markdown,
                    Header ''Prediksi Penjualan Sederhana'',
                    Write ''Gunakan bagian ini untuk memprediksi potensi total penjualan'',
                    Subheader ''Input Parameter Prediksi'',
                    Markdown,
                    Predict frame,
                    Error_box (''Terjadi kesalahan saat melakukan prediksi: '' @ str_exc e
                               @ ''. Pastikan semua input valid.''),
                    Markdown, Caption],
                   Completed)
              | Inr v \<Rightarrow>
                  (case st_write frame of
                     None \<Rightarrow>
                       ([Title, Markdown, Markdown,
                         Header ''Prediksi Penjualan Sederhana'',
                         Write ''Gunakan bagian ini untuk memprediksi potensi total penjualan'',
                         Subheader ''Input Parameter Prediksi'',
                         Markdown,
                         Predict frame,
                         Success v,
                         Info,
                         Markdown,
                         Subheader ''Fitur yang Digunakan untuk Prediksi:'',
                         Write_frame frame,
                         Markdown, Caption],
                        Completed)
                   | Some e \<Rightarrow>
                       ([Title, Markdown, Markdown,
                         Header ''Prediksi Penjualan Sederhana'',
                         Write ''Gunakan bagian ini untuk memprediksi potensi total penjualan'',
                         Subheader ''Input Parameter Prediksi'',
                         Markdown,
                         Predict frame,
                         Success v,
                         Info,
                         Markdown,
                         Subheader ''Fitur yang Digunakan untuk Prediksi:'',
                         Error_box (''Terjadi kesalahan saat melakukan prediksi: '' @ str_exc e
                                    @ ''. Pastikan semua input valid.''),
                         Markdown, Caption],
                        Completed)))
         \<and> length (filter is_predict
             (fst (script to_period predict st_write series_sum group_sum df_sales model_features w)))
             = 1"
proof -
  let ?frame = "\<lparr>columns = model_features,
                 row = [IntCell (toordinal (target_date w)), FloatCell (avg_quantity w),
                        FloatCell (avg_unit_price w), FloatCell (avg_discount w),
                        IntCell (day_of_week_map (day_of_week w)), IntCell (hour_of_day w)]\<rparr>"
  have f: "input_for_prediction model_features (toordinal (target_date w)) (avg_quantity w)
               (avg_unit_price w) (avg_discount w) (day_of_week_map (day_of_week w)) (hour_of_day w)
             = Inr ?frame"
    using assms(3) by (simp add: input_for_prediction_def)
  have s: "script to_period predict st_write series_sum group_sum df_sales model_features w =
             and_then (say [Title, Markdown, Markdown])
               (and_then (say [])
                  (and_then (prediction_page predict st_write model_features w)
                     (say [Markdown, Caption])))"
    using assms(1) by (simp add: script_def)
  show ?thesis
  proof (cases "predicted_sales_value predict ?frame")
    case (Inl e)
    then show ?thesis
      using f assms(2)
      by (intro exI[of _ ?frame]) (simp add: s prediction_page_def and_then_def say_def)
  next
    case (Inr v)
    show ?thesis
    proof (cases "st_write ?frame")
      case None
      then show ?thesis
        using f assms(2) Inr
        by (intro exI[of _ ?frame]) (simp add: s prediction_page_def and_then_def say_def)
    next
      case (Some e)
      then show ?thesis
        using f assms(2) Inr
        by (intro exI[of _ ?frame]) (simp add: s prediction_page_def and_then_def say_def)
    qed
  qed
qed

text \<open>
  On the sample widget values with the feature list \<open>d, q, p, disc, wd, hr\<close>: an estimator
  that raises gives the error box with its message; an estimator that returns 250 gives the
  predicted value and the feature row.
\<close>

theorem prediction_attempt_outcome_witness:
  "pilihan_halaman example_widgets = Prediksi_Penjualan
   \<and> button example_widgets
   \<and> length [''d'', ''q'', ''p'', ''disc'', ''wd'', ''hr''] = 6
   \<and> script month_label_parser failing_estimator st_write_distinct float64_sum float64_sum three_months
        [''d'', ''q'', ''p'', ''disc'', ''wd'', ''hr''] example_widgets
       = ([Title, Markdown, Markdown,
           Header ''Prediksi Penjualan Sederhana'',
           Write ''Gunakan bagian ini untuk memprediksi potensi total penjualan'',
           Subheader ''Input Parameter Prediksi'',
           Markdown,
           Predict \<lparr>columns = [''d'', ''q'', ''p'', ''disc'', ''wd'', ''hr''],
                    row = [IntCell 739047, FloatCell 2, FloatCell 100, FloatCell (1 / 10),
                           IntCell 0, IntCell 14]\<rparr>,
           Error_box (''Terjadi kesalahan saat melakukan prediksi: ''
                      @ ''X has 6 features, but the estimator expects 7''
                      @ ''. Pastikan semua input valid.''),
           Markdown, Caption],
          Completed)
   \<and> script month_label_parser constant_estimator st_write_distinct float64_sum float64_sum three_months
        [''d'', ''q'', ''p'', ''disc'', ''wd'', ''hr''] example_widgets
       = ([Title, Markdown, Markdown,
           Header ''Prediksi Penjualan Sederhana'',
           Write ''Gunakan bagian ini untuk memprediksi potensi total penjualan'',
           Subheader ''Input Parameter Prediksi'',
           Markdown,
           Predict \<lparr>columns = [''d'', ''q'', ''p'', ''disc'', ''wd'', ''hr''],
                    row = [IntCell 739047, FloatCell 2, FloatCell 100, FloatCell (1 / 10),
                           IntCell 0, IntCell 14]\<rparr>,
           Success 250,
           Info,
           Markdown,
           Subheader ''Fitur yang Digunakan untuk Prediksi:'',
           Write_frame \<lparr>columns = [''d'', ''q'', ''p'', ''disc'', ''wd'', ''hr''],
                        row = [IntCell 739047, FloatCell 2, FloatCell 100, FloatCell (1 / 10),
                               IntCell 0, IntCell 14]\<rparr>,
           Markdown, Caption],
          Completed)"
proof -
  have h1: "pilihan_halaman example_widgets = Prediksi_Penjualan"
    by (simp add: example_widgets_def)
  have h2: "button example_widgets"
    by (simp add: example_widgets_def)
  have h3: "length [''d'', ''q'', ''p'', ''disc'', ''wd'', ''hr''] = 6"
    by simp
  have v: "toordinal (target_date example_widgets) = 739047"
      "avg_quantity example_widgets = 2" "avg_unit_price example_widgets = 100"
      "avg_discount example_widgets = 1 / 10"
      "day_of_week_map (day_of_week example_widgets) = 0" "hour_of_day example_widgets = 14"
    by (simp_all add: example_widgets_def toordinal_example)
  have a: "script month_label_parser failing_estimator st_write_distinct float64_sum float64_sum three_months
        [''d'', ''q'', ''p'', ''disc'', ''wd'', ''hr''] example_widgets
       = ([Title, Markdown, Markdown,
           Header ''Prediksi Penjualan Sederhana'',
           Write ''Gunakan bagian ini untuk memprediksi potensi total penjualan'',
           Subheader ''Input Parameter Prediksi'',
           Markdown,
           Predict \<lparr>columns = [''d'', ''q'', ''p'', ''disc'', ''wd'', ''hr''],
                    row = [IntCell 739047, FloatCell 2, FloatCell 100, FloatCell (1 / 10),
                           IntCell 0, IntCell 14]\<rparr>,
           Error_box (''Terjadi kesalahan saat melakukan prediksi: ''
                      @ ''X has 6 features, but the estimator expects 7''
                      @ ''. Pastikan semua input valid.''),
           Markdown, Caption],
          Completed)"
    using prediction_attempt_outcome[OF h1 h2 h3, where to_period = month_label_parser
        and predict = failing_estimator and st_write = st_write_distinct
        and series_sum = float64_sum and group_sum = float64_sum and df_sales = three_months]
    by (auto simp add: v predicted_sales_value_def failing_estimator_def)
  have b: "script month_label_parser constant_estimator st_write_distinct float64_sum float64_sum three_months
        [''d'', ''q'', ''p'', ''disc'', ''wd'', ''hr''] example_widgets
       = ([Title, Markdown, Markdown,
           Header ''Prediksi Penjualan Sederhana'',
           Write ''Gunakan bagian ini untuk memprediksi potensi total penjualan'',
           Subheader ''Input Parameter Prediksi'',
           Markdown,
           Predict \<lparr>columns = [''d'', ''q'', ''p'', ''disc'', ''wd'', ''hr''],
                    row = [IntCell 739047, FloatCell 2, FloatCell 100, FloatCell (1 / 10),
                           IntCell 0, IntCell 14]\<rparr>,
           Success 250,
           Info,
           Markdown,
           Subheader ''Fitur yang Digunakan untuk Prediksi:'',
           Write_frame \<lparr>columns = [''d'', ''q'', ''p'', ''disc'', ''wd'', ''hr''],
                        row = [IntCell 739047, FloatCell 2, FloatCell 100, FloatCell (1 / 10),
                               IntCell 0, IntCell 14]\<rparr>,
           Markdown, Caption],
          Completed)"
    using prediction_attempt_outcome[OF h1 h2 h3, where to_period = month_label_parser
        and predict = constant_estimator and st_write = st_write_distinct
        and series_sum = float64_sum and group_sum = float64_sum and df_sales = three_months]
    by (auto simp add: v predicted_sales_value_def constant_estimator_def py_index_def
        st_write_distinct_def)
  show ?thesis using h1 h2 h3 a b by blast
qed

end
